theory Spec2Isabelle
  imports Complex_Main "HOL-Library.Sublist" "HOL-Library.Multiset"
begin

section \<open>Values\<close>

subsection \<open>Numbers\<close>

text \<open>
  The value of a real scalar as Python and NumPy compare it: a finite number, one of the
  two infinities, or not-a-number. A finite float is represented by the rational it
  denotes, so that comparison, equality and floor are the exact ones.
\<close>

datatype xnum = NaN | NegInf | Fin rat | PosInf

fun xeq :: "xnum \<Rightarrow> xnum \<Rightarrow> bool" where
  "xeq NaN _ = False"
| "xeq _ NaN = False"
| "xeq a b = (a = b)"

fun xle :: "xnum \<Rightarrow> xnum \<Rightarrow> bool" where
  "xle NaN _ = False"
| "xle _ NaN = False"
| "xle NegInf _ = True"
| "xle _ PosInf = True"
| "xle (Fin a) (Fin b) = (a \<le> b)"
| "xle _ _ = False"

fun xlt :: "xnum \<Rightarrow> xnum \<Rightarrow> bool" where
  "xlt NaN _ = False"
| "xlt _ NaN = False"
| "xlt PosInf _ = False"
| "xlt _ NegInf = False"
| "xlt (Fin a) (Fin b) = (a < b)"
| "xlt _ _ = True"

fun xfloor :: "xnum \<Rightarrow> xnum" where
  "xfloor (Fin a) = Fin (of_int \<lfloor>a\<rfloor>)"
| "xfloor a = a"

fun xfinite :: "xnum \<Rightarrow> bool" where
  "xfinite (Fin _) = True"
| "xfinite _ = False"

subsection \<open>Plain Python objects\<close>

text \<open>
  The objects a caller passes as a shape, an axis, a bound or a name: \<open>None\<close>, the built-in
  numbers, strings, tuples and lists. A complex number carries its real and imaginary part.
\<close>

datatype pyobj =
    PyNone
  | PyBool bool
  | PyInt int
  | PyFloat xnum
  | PyComplex xnum xnum
  | PyStr string
  | PyTuple "pyobj list"
  | PyList "pyobj list"

text \<open>The numeric value of a built-in number, as a pair of real and imaginary part.\<close>

fun num_val :: "pyobj \<Rightarrow> (xnum \<times> xnum) option" where
  "num_val (PyBool b) = Some (Fin (if b then 1 else 0), Fin 0)"
| "num_val (PyInt n) = Some (Fin (of_int n), Fin 0)"
| "num_val (PyFloat x) = Some (x, Fin 0)"
| "num_val (PyComplex re im) = Some (re, im)"
| "num_val _ = None"

text \<open>
  Python's \<open>==\<close>: numbers of any built-in type compare by value, strings by content,
  tuples with tuples and lists with lists element by element; objects of unrelated types
  are unequal.
\<close>

fun py_eq :: "pyobj \<Rightarrow> pyobj \<Rightarrow> bool"
  and py_eq_items :: "pyobj list \<Rightarrow> pyobj list \<Rightarrow> bool" where
  "py_eq (PyTuple xs) (PyTuple ys) = py_eq_items xs ys"
| "py_eq (PyList xs) (PyList ys) = py_eq_items xs ys"
| "py_eq (PyStr s) (PyStr t) = (s = t)"
| "py_eq PyNone PyNone = True"
| "py_eq x y =
     (case (num_val x, num_val y) of
        (Some (a, b), Some (c, d)) \<Rightarrow> xeq a c \<and> xeq b d
      | _ \<Rightarrow> False)"
| "py_eq_items [] [] = True"
| "py_eq_items (x # xs) (y # ys) = (py_eq x y \<and> py_eq_items xs ys)"
| "py_eq_items _ _ = False"

text \<open>\<open>isinstance(d, int)\<close> for a plain object, and the integer it then denotes.\<close>

fun int_val :: "pyobj \<Rightarrow> int option" where
  "int_val (PyBool b) = Some (if b then 1 else 0)"
| "int_val (PyInt n) = Some n"
| "int_val _ = None"

subsection \<open>Arrays\<close>

text \<open>
  NumPy's concrete data types. A text dtype carries its width (\<open><U3\<close>).
\<close>

datatype dtype =
    DBool
  | Int8 | Int16 | Int32 | Int64
  | UInt8 | UInt16 | UInt32 | UInt64
  | Float16 | Float32 | Float64
  | Complex64 | Complex128
  | Unicode nat
  | DObject

text \<open>
  NumPy's scalar classes: the abstract families (\<open>np.number\<close>, \<open>np.integer\<close>, ...) and the
  concrete scalar types (\<open>np.int64\<close>, ...), with \<open>dtype.type\<close> and the class hierarchy
  between them.
\<close>

datatype np_class =
    NpGeneric
  | NpNumber | NpInteger | NpSignedInteger | NpUnsignedInteger
  | NpInexact | NpFloating | NpComplexFloating
  | NpFlexible | NpCharacter
  | NpBool
  | NpInt8 | NpInt16 | NpInt32 | NpInt64
  | NpUInt8 | NpUInt16 | NpUInt32 | NpUInt64
  | NpFloat16 | NpFloat32 | NpFloat64
  | NpComplex64 | NpComplex128
  | NpStr
  | NpObject

fun dtype_type :: "dtype \<Rightarrow> np_class" where
  "dtype_type DBool = NpBool"
| "dtype_type Int8 = NpInt8"
| "dtype_type Int16 = NpInt16"
| "dtype_type Int32 = NpInt32"
| "dtype_type Int64 = NpInt64"
| "dtype_type UInt8 = NpUInt8"
| "dtype_type UInt16 = NpUInt16"
| "dtype_type UInt32 = NpUInt32"
| "dtype_type UInt64 = NpUInt64"
| "dtype_type Float16 = NpFloat16"
| "dtype_type Float32 = NpFloat32"
| "dtype_type Float64 = NpFloat64"
| "dtype_type Complex64 = NpComplex64"
| "dtype_type Complex128 = NpComplex128"
| "dtype_type (Unicode _) = NpStr"
| "dtype_type DObject = NpObject"

text \<open>The proper superclasses of a NumPy scalar class inside NumPy's hierarchy.\<close>

fun np_bases :: "np_class \<Rightarrow> np_class list" where
  "np_bases NpGeneric = []"
| "np_bases NpNumber = [NpGeneric]"
| "np_bases NpInteger = [NpNumber, NpGeneric]"
| "np_bases NpSignedInteger = [NpInteger, NpNumber, NpGeneric]"
| "np_bases NpUnsignedInteger = [NpInteger, NpNumber, NpGeneric]"
| "np_bases NpInexact = [NpNumber, NpGeneric]"
| "np_bases NpFloating = [NpInexact, NpNumber, NpGeneric]"
| "np_bases NpComplexFloating = [NpInexact, NpNumber, NpGeneric]"
| "np_bases NpFlexible = [NpGeneric]"
| "np_bases NpCharacter = [NpFlexible, NpGeneric]"
| "np_bases NpBool = [NpGeneric]"
| "np_bases NpInt8 = [NpSignedInteger, NpInteger, NpNumber, NpGeneric]"
| "np_bases NpInt16 = [NpSignedInteger, NpInteger, NpNumber, NpGeneric]"
| "np_bases NpInt32 = [NpSignedInteger, NpInteger, NpNumber, NpGeneric]"
| "np_bases NpInt64 = [NpSignedInteger, NpInteger, NpNumber, NpGeneric]"
| "np_bases NpUInt8 = [NpUnsignedInteger, NpInteger, NpNumber, NpGeneric]"
| "np_bases NpUInt16 = [NpUnsignedInteger, NpInteger, NpNumber, NpGeneric]"
| "np_bases NpUInt32 = [NpUnsignedInteger, NpInteger, NpNumber, NpGeneric]"
| "np_bases NpUInt64 = [NpUnsignedInteger, NpInteger, NpNumber, NpGeneric]"
| "np_bases NpFloat16 = [NpFloating, NpInexact, NpNumber, NpGeneric]"
| "np_bases NpFloat32 = [NpFloating, NpInexact, NpNumber, NpGeneric]"
| "np_bases NpFloat64 = [NpFloating, NpInexact, NpNumber, NpGeneric]"
| "np_bases NpComplex64 = [NpComplexFloating, NpInexact, NpNumber, NpGeneric]"
| "np_bases NpComplex128 = [NpComplexFloating, NpInexact, NpNumber, NpGeneric]"
| "np_bases NpStr = [NpCharacter, NpFlexible, NpGeneric]"
| "np_bases NpObject = [NpGeneric]"

definition np_issubclass :: "np_class \<Rightarrow> np_class \<Rightarrow> bool" where
  "np_issubclass c b = (c = b \<or> b \<in> set (np_bases c))"

text \<open>
  \<open>np.issubdtype(d, b)\<close> for a concrete dtype \<open>d\<close> and a scalar class \<open>b\<close>:
  \<open>issubclass(d.type, b)\<close>.
\<close>

definition issubdtype :: "dtype \<Rightarrow> np_class \<Rightarrow> bool" where
  "issubdtype d b = np_issubclass (dtype_type d) b"

text \<open>
  An array: its dtype, its shape and its elements in row-major order. The elements are
  represented for boolean, integer and floating arrays (a boolean as 0 or 1); for an array
  of complex, text or object dtype only dtype and shape are meaningful, and the properties
  below that read element values are stated for real-valued arrays.
\<close>

record ndarray =
  dtype :: dtype
  shape :: "nat list"
  data :: "xnum list"

definition ndim :: "ndarray \<Rightarrow> nat" where
  "ndim a = length (shape a)"

definition arr_size :: "ndarray \<Rightarrow> nat" where
  "arr_size a = prod_list (shape a)"

definition real_valued :: "ndarray \<Rightarrow> bool" where
  "real_valued a = (issubdtype (dtype a) NpInteger \<or> issubdtype (dtype a) NpFloating
                    \<or> dtype a = DBool)"

subsection \<open>Objects and classes\<close>

text \<open>Any value a check can receive: a plain object, a NumPy scalar or an array.\<close>

datatype pyval =
    Obj pyobj
  | NpScalar dtype xnum
  | NdArray ndarray

text \<open>
  The classes that appear as \<open>classinfo\<close> or as the type of a value: built-in types,
  \<open>numpy.ndarray\<close>, NumPy's scalar classes, and the abstract base classes of \<open>numbers\<close>
  and \<open>collections.abc\<close>.
\<close>

datatype pyclass =
    C_object | C_NoneType | C_bool | C_int | C_float | C_complex | C_str | C_tuple | C_list
  | C_ndarray
  | C_np np_class
  | C_Number | C_Complex | C_Real | C_Rational | C_Integral
  | C_Iterable | C_Sized | C_Sequence

fun obj_type :: "pyobj \<Rightarrow> pyclass" where
  "obj_type PyNone = C_NoneType"
| "obj_type (PyBool _) = C_bool"
| "obj_type (PyInt _) = C_int"
| "obj_type (PyFloat _) = C_float"
| "obj_type (PyComplex _ _) = C_complex"
| "obj_type (PyStr _) = C_str"
| "obj_type (PyTuple _) = C_tuple"
| "obj_type (PyList _) = C_list"

text \<open>\<open>type(obj)\<close>.\<close>

fun type_of :: "pyval \<Rightarrow> pyclass" where
  "type_of (Obj x) = obj_type x"
| "type_of (NpScalar d _) = C_np (dtype_type d)"
| "type_of (NdArray _) = C_ndarray"

text \<open>
  The classes \<open>c\<close> with \<open>issubclass(t, c)\<close>, for the type \<open>t\<close> of a value. They follow
  Python and NumPy: \<open>bool\<close> is a subclass of \<open>int\<close>; \<open>int\<close>, \<open>float\<close> and \<open>complex\<close> are
  registered with the numeric tower of \<open>numbers\<close>; \<open>numpy.float64\<close> is a subclass of
  \<open>float\<close>, \<open>numpy.complex128\<close> of \<open>complex\<close> and \<open>numpy.str_\<close> of \<open>str\<close>, while
  \<open>numpy.int64\<close> is no subclass of \<open>int\<close> and \<open>numpy.bool_\<close> none of \<open>bool\<close>; NumPy
  registers \<open>np.integer\<close> as \<open>Integral\<close>, \<open>np.floating\<close> as \<open>Real\<close>, \<open>np.inexact\<close> as
  \<open>Complex\<close> and \<open>np.number\<close> as \<open>Number\<close>; \<open>numpy.bool_\<close> is no number. An array is
  iterable and sized but no \<open>Sequence\<close>.
\<close>

definition integral_tower :: "pyclass list" where
  "integral_tower = [C_Integral, C_Rational, C_Real, C_Complex, C_Number]"

definition real_tower :: "pyclass list" where
  "real_tower = [C_Real, C_Complex, C_Number]"

definition complex_tower :: "pyclass list" where
  "complex_tower = [C_Complex, C_Number]"

definition sequence_abcs :: "pyclass list" where
  "sequence_abcs = [C_Sequence, C_Iterable, C_Sized]"

definition np_registered :: "np_class \<Rightarrow> pyclass list" where
  "np_registered c =
     (if np_issubclass c NpInteger then integral_tower
      else if np_issubclass c NpFloating then real_tower
      else if np_issubclass c NpInexact then complex_tower
      else if np_issubclass c NpNumber then [C_Number]
      else [])"

fun np_builtin_bases :: "np_class \<Rightarrow> pyclass list" where
  "np_builtin_bases NpFloat64 = [C_float]"
| "np_builtin_bases NpComplex128 = [C_complex]"
| "np_builtin_bases NpStr = C_str # sequence_abcs"
| "np_builtin_bases _ = []"

fun superclasses :: "pyclass \<Rightarrow> pyclass list" where
  "superclasses C_NoneType = [C_NoneType, C_object]"
| "superclasses C_bool = [C_bool, C_int, C_object] @ integral_tower"
| "superclasses C_int = [C_int, C_object] @ integral_tower"
| "superclasses C_float = [C_float, C_object] @ real_tower"
| "superclasses C_complex = [C_complex, C_object] @ complex_tower"
| "superclasses C_str = [C_str, C_object] @ sequence_abcs"
| "superclasses C_tuple = [C_tuple, C_object] @ sequence_abcs"
| "superclasses C_list = [C_list, C_object] @ sequence_abcs"
| "superclasses C_ndarray = [C_ndarray, C_object, C_Iterable, C_Sized]"
| "superclasses (C_np c) =
     map C_np (c # np_bases c) @ [C_object] @ np_builtin_bases c @ np_registered c"
| "superclasses c = [c, C_object]"

definition issubclass :: "pyclass \<Rightarrow> pyclass \<Rightarrow> bool" where
  "issubclass t c = (c \<in> set (superclasses t))"

text \<open>
  The second argument of \<open>isinstance\<close>: one class, or a tuple of classes (a \<open>Union\<close> of
  classes is turned into the tuple of its members before use).
\<close>

datatype classinfo = Cls pyclass | ClsTuple "pyclass list" | ClsUnion "pyclass list"

fun isinstance :: "pyval \<Rightarrow> classinfo \<Rightarrow> bool" where
  "isinstance x (Cls c) = issubclass (type_of x) c"
| "isinstance x (ClsTuple cs) = list_ex (issubclass (type_of x)) cs"
| "isinstance x (ClsUnion cs) = list_ex (issubclass (type_of x)) cs"

subsection \<open>Errors\<close>

text \<open>
  The exceptions the checks raise, each with its message. A check returns \<open>Inr ()\<close> when
  it passes and \<open>Inl\<close> of the exception when it raises.
\<close>

datatype py_exn =
    TypeError string
  | ValueError string
  | OverflowError string
  | RuntimeError string
  | NotImplementedError

type_synonym 'a result = "py_exn + 'a"

fun message :: "py_exn \<Rightarrow> string" where
  "message (TypeError m) = m"
| "message (ValueError m) = m"
| "message (OverflowError m) = m"
| "message (RuntimeError m) = m"
| "message NotImplementedError = []"

fun is_TypeError :: "py_exn \<Rightarrow> bool" where
  "is_TypeError (TypeError _) = True"
| "is_TypeError _ = False"

fun is_ValueError :: "py_exn \<Rightarrow> bool" where
  "is_ValueError (ValueError _) = True"
| "is_ValueError _ = False"

text \<open>Sequencing of two statements: the second runs when the first did not raise.\<close>

definition and_then :: "'a result \<Rightarrow> ('a \<Rightarrow> 'b result) \<Rightarrow> 'b result" where
  "and_then r f = (case r of Inl e \<Rightarrow> Inl e | Inr x \<Rightarrow> f x)"

definition passes :: "'a result \<Rightarrow> bool" where
  "passes r = (case r of Inl _ \<Rightarrow> False | Inr _ \<Rightarrow> True)"

definition raises :: "'a result \<Rightarrow> bool" where
  "raises r = (case r of Inl _ \<Rightarrow> True | Inr _ \<Rightarrow> False)"

subsection \<open>Text\<close>

text \<open>Python's \<open>str\<close> of a non-negative and of any integer.\<close>

definition digit_char :: "nat \<Rightarrow> char" where
  "digit_char n = ''0123456789'' ! n"

fun str_nat :: "nat \<Rightarrow> string" where
  "str_nat n = (if n < 10 then [digit_char n] else str_nat (n div 10) @ [digit_char (n mod 10)])"

declare str_nat.simps [simp del]

definition str_int :: "int \<Rightarrow> string" where
  "str_int i = (if i < 0 then ''-'' @ str_nat (nat (- i)) else str_nat (nat i))"

text \<open>The items of a sequence separated by \<open>', '\<close>.\<close>

fun comma_sep :: "string list \<Rightarrow> string" where
  "comma_sep [] = []"
| "comma_sep [x] = x"
| "comma_sep (x # xs) = x @ '', '' @ comma_sep xs"

text \<open>Python's \<open>str\<close> of a tuple whose items print as \<open>xs\<close>: \<open>()\<close>, \<open>(3,)\<close>, \<open>(3, 4)\<close>.\<close>

definition str_tuple :: "string list \<Rightarrow> string" where
  "str_tuple xs = (if length xs = 1 then ''('' @ hd xs @ '',)'' else ''('' @ comma_sep xs @ '')'')"

definition str_shape :: "nat list \<Rightarrow> string" where
  "str_shape s = str_tuple (map str_nat s)"

fun np_class_name :: "np_class \<Rightarrow> string" where
  "np_class_name NpGeneric = ''generic''"
| "np_class_name NpNumber = ''number''"
| "np_class_name NpInteger = ''integer''"
| "np_class_name NpSignedInteger = ''signedinteger''"
| "np_class_name NpUnsignedInteger = ''unsignedinteger''"
| "np_class_name NpInexact = ''inexact''"
| "np_class_name NpFloating = ''floating''"
| "np_class_name NpComplexFloating = ''complexfloating''"
| "np_class_name NpFlexible = ''flexible''"
| "np_class_name NpCharacter = ''character''"
| "np_class_name NpBool = ''bool_''"
| "np_class_name NpInt8 = ''int8''"
| "np_class_name NpInt16 = ''int16''"
| "np_class_name NpInt32 = ''int32''"
| "np_class_name NpInt64 = ''int64''"
| "np_class_name NpUInt8 = ''uint8''"
| "np_class_name NpUInt16 = ''uint16''"
| "np_class_name NpUInt32 = ''uint32''"
| "np_class_name NpUInt64 = ''uint64''"
| "np_class_name NpFloat16 = ''float16''"
| "np_class_name NpFloat32 = ''float32''"
| "np_class_name NpFloat64 = ''float64''"
| "np_class_name NpComplex64 = ''complex64''"
| "np_class_name NpComplex128 = ''complex128''"
| "np_class_name NpStr = ''str_''"
| "np_class_name NpObject = ''object_''"

fun class_name :: "pyclass \<Rightarrow> string" where
  "class_name C_object = ''object''"
| "class_name C_NoneType = ''NoneType''"
| "class_name C_bool = ''bool''"
| "class_name C_int = ''int''"
| "class_name C_float = ''float''"
| "class_name C_complex = ''complex''"
| "class_name C_str = ''str''"
| "class_name C_tuple = ''tuple''"
| "class_name C_list = ''list''"
| "class_name C_ndarray = ''numpy.ndarray''"
| "class_name (C_np c) = ''numpy.'' @ np_class_name c"
| "class_name C_Number = ''numbers.Number''"
| "class_name C_Complex = ''numbers.Complex''"
| "class_name C_Real = ''numbers.Real''"
| "class_name C_Rational = ''numbers.Rational''"
| "class_name C_Integral = ''numbers.Integral''"
| "class_name C_Iterable = ''collections.abc.Iterable''"
| "class_name C_Sized = ''collections.abc.Sized''"
| "class_name C_Sequence = ''collections.abc.Sequence''"

text \<open>Python's \<open>str\<close> of a class, \<open><class 'int'>\<close>, and of a \<open>classinfo\<close>.\<close>

definition str_class :: "pyclass \<Rightarrow> string" where
  "str_class c = ''<class '' @ [CHR 0x27] @ class_name c @ [CHR 0x27] @ ''>''"

fun str_classinfo :: "classinfo \<Rightarrow> string" where
  "str_classinfo (Cls c) = str_class c"
| "str_classinfo (ClsTuple cs) = str_tuple (map str_class cs)"
| "str_classinfo (ClsUnion cs) = str_tuple (map str_class cs)"

text \<open>Python's \<open>str\<close> of a dtype: \<open>int64\<close>, \<open><U3\<close>, \<open>object\<close>.\<close>

fun str_dtype :: "dtype \<Rightarrow> string" where
  "str_dtype DBool = ''bool''"
| "str_dtype (Unicode n) = ''<U'' @ str_nat n"
| "str_dtype DObject = ''object''"
| "str_dtype d = np_class_name (dtype_type d)"

section \<open>Shapes\<close>

text \<open>The shape of an array, a tuple of Python integers.\<close>

definition shape_tuple :: "nat list \<Rightarrow> pyobj list" where
  "shape_tuple s = map (\<lambda>n. PyInt (int n)) s"

text \<open>
  \<^verbatim>\<open>
  def _shape_is_allowed(a, b):
      if len(a) == len(b) and all(map(lambda x, y: True if x == y else y == -1, a, b)):
          return True
      else:
          return False
  \<close>
\<close>

definition shape_is_allowed :: "pyobj list \<Rightarrow> pyobj list \<Rightarrow> bool" where
  "shape_is_allowed a b =
     (if length a = length b
         \<and> list_all (\<lambda>(x, y). if py_eq x y then True else py_eq y (PyInt (- 1))) (zip a b)
      then True else False)"

text \<open>\<open>_is_valid_dim\<close>: \<open>isinstance(d, int) and d >= -1\<close>.\<close>

definition is_valid_dim :: "pyobj \<Rightarrow> bool" where
  "is_valid_dim d = (case int_val d of Some n \<Rightarrow> n \<ge> - 1 | None \<Rightarrow> False)"

section \<open>Instance, container and string checks\<close>

text \<open>
  Python's \<open>str()\<close> of a value interpolated into a message (a float, a NumPy scalar, an
  array, a caller's shape or iterable) is not fixed here: the checks take it as the
  parameter \<open>fmt\<close>.
\<close>

type_synonym fmt = "pyval \<Rightarrow> string"

text \<open>
  The formatter that prints every value as the empty text. It serves to run the checks on
  concrete inputs, where the printed values play no role.
\<close>

definition no_text :: fmt where
  "no_text v = []"

text \<open>
  \<open>check_is_instance(obj, classinfo, *, allow_subclass=True, name='Object')\<close>. The name is a
  string here, so the initial test \<open>isinstance(name, str)\<close> holds.
\<close>

fun union_args :: "classinfo \<Rightarrow> classinfo" where
  "union_args (ClsUnion cs) = ClsTuple cs"
| "union_args c = c"

fun num_classes :: "classinfo \<Rightarrow> nat" where
  "num_classes (ClsTuple cs) = length cs"
| "num_classes _ = 1"

fun type_in :: "pyclass \<Rightarrow> classinfo \<Rightarrow> bool option" where
  "type_in t (ClsTuple cs) = Some (t \<in> set cs)"
| "type_in t _ = None"

definition check_is_instance :: "pyval \<Rightarrow> classinfo \<Rightarrow> bool \<Rightarrow> string \<Rightarrow> unit result" where
  "check_is_instance obj classinfo0 allow_subclass name =
     (let classinfo = union_args classinfo0;
          n = num_classes classinfo;
          is_instance = isinstance obj classinfo;
          msg = (\<lambda>msg_body. name @ '' '' @ msg_body @ '' '' @ str_classinfo classinfo
                   @ ''. Got '' @ str_class (type_of obj) @ '' instead.'')
      in if allow_subclass \<and> \<not> is_instance then
           (if n = 1 then Inl (TypeError (msg ''must be an instance of''))
            else Inl (TypeError (msg ''must be an instance of any type'')))
         else if \<not> allow_subclass then
           (case type_in (type_of obj) classinfo of
              Some member \<Rightarrow>
                if \<not> member then Inl (TypeError (msg ''must have one of the following types''))
                else Inr ()
            | None \<Rightarrow>
                if Cls (type_of obj) \<noteq> classinfo then Inl (TypeError (msg ''must have type''))
                else Inr ())
         else Inr ())"

definition check_is_string :: "pyval \<Rightarrow> bool \<Rightarrow> string \<Rightarrow> unit result" where
  "check_is_string obj allow_subclass name = check_is_instance obj (Cls C_str) allow_subclass name"

definition check_is_sequence :: "pyval \<Rightarrow> string \<Rightarrow> unit result" where
  "check_is_sequence obj name = check_is_instance obj (Cls C_Sequence) True name"

definition check_is_iterable :: "pyval \<Rightarrow> string \<Rightarrow> unit result" where
  "check_is_iterable obj name = check_is_instance obj (Cls C_Iterable) True name"

definition check_is_type :: "pyval \<Rightarrow> classinfo \<Rightarrow> string \<Rightarrow> unit result" where
  "check_is_type obj classinfo name = check_is_instance obj classinfo False name"

text \<open>
  The items a \<open>for\<close> loop draws from a value. A list or tuple gives its items, a string its
  characters, an array of one or more dimensions its slices along the first axis (scalars
  for a one-dimensional array); iterating a 0-dimensional array raises. The characters of
  a NumPy string scalar are not represented, only their number.
\<close>

fun chunks :: "nat \<Rightarrow> nat \<Rightarrow> 'a list \<Rightarrow> 'a list list" where
  "chunks 0 k xs = []"
| "chunks (Suc n) k xs = take k xs # chunks n k (drop k xs)"

definition array_items :: "ndarray \<Rightarrow> pyval list" where
  "array_items a =
     (case shape a of
        [] \<Rightarrow> []
      | [n] \<Rightarrow> map (NpScalar (dtype a)) (take n (data a))
      | n # rest \<Rightarrow>
          map (\<lambda>xs. NdArray \<lparr>dtype = dtype a, shape = rest, data = xs\<rparr>)
              (chunks n (prod_list rest) (data a)))"

fun py_iter :: "pyval \<Rightarrow> pyval list result" where
  "py_iter (Obj (PyList xs)) = Inr (map Obj xs)"
| "py_iter (Obj (PyTuple xs)) = Inr (map Obj xs)"
| "py_iter (Obj (PyStr s)) = Inr (map (\<lambda>c. Obj (PyStr [c])) s)"
| "py_iter (Obj x) =
     Inl (TypeError ([CHR 0x27] @ class_name (obj_type x) @ [CHR 0x27] @ '' object is not iterable''))"
| "py_iter (NdArray a) =
     (if ndim a = 0 then Inl (TypeError ''iteration over a 0-d array'') else Inr (array_items a))"
| "py_iter (NpScalar (Unicode n) v) = Inr (replicate n (Obj (PyStr ''?'')))"
| "py_iter (NpScalar d v) =
     Inl (TypeError ([CHR 0x27] @ class_name (C_np (dtype_type d)) @ [CHR 0x27]
                     @ '' object is not iterable''))"

text \<open>A list of checks run in order; the first that raises ends the run.\<close>

fun check_each :: "('a \<Rightarrow> unit result) \<Rightarrow> 'a list \<Rightarrow> unit result" where
  "check_each chk [] = Inr ()"
| "check_each chk (x # xs) = and_then (chk x) (\<lambda>_. check_each chk xs)"

text \<open>
  \<open>check_is_iterable_of_some_type(iterable_obj, some_type, *, allow_subclass=True,
  name='Iterable')\<close>.
\<close>

definition check_is_iterable_of_some_type ::
    "pyval \<Rightarrow> classinfo \<Rightarrow> bool \<Rightarrow> string \<Rightarrow> unit result" where
  "check_is_iterable_of_some_type iterable_obj some_type allow_subclass name =
     and_then (check_is_iterable iterable_obj name) (\<lambda>_.
     and_then (py_iter iterable_obj) (\<lambda>items.
       check_each (\<lambda>item. check_is_instance item some_type allow_subclass
                             (''All items of '' @ name)) items))"

definition check_is_iterable_of_strings :: "pyval \<Rightarrow> bool \<Rightarrow> string \<Rightarrow> unit result" where
  "check_is_iterable_of_strings iterable_obj allow_subclass name =
     check_is_iterable_of_some_type iterable_obj (Cls C_str) allow_subclass name"

text \<open>
  \<open>x in container\<close> for a plain container: an item equal to \<open>x\<close> in a list or tuple, a
  substring in a string.
\<close>

fun py_contains :: "pyobj \<Rightarrow> pyobj \<Rightarrow> bool" where
  "py_contains (PyList xs) x = list_ex (\<lambda>e. py_eq e x) xs"
| "py_contains (PyTuple xs) x = list_ex (\<lambda>e. py_eq e x) xs"
| "py_contains (PyStr s) (PyStr t) = sublist t s"
| "py_contains _ _ = False"

text \<open>
  \<open>check_is_string_in_iterable(string_in, string_iterable, *, name='String')\<close>, for a plain
  object and a plain container.
\<close>

definition check_is_string_in_iterable :: "fmt \<Rightarrow> pyobj \<Rightarrow> pyobj \<Rightarrow> string \<Rightarrow> unit result" where
  "check_is_string_in_iterable fmt string_in string_iterable name =
     and_then (check_is_string (Obj string_in) True name) (\<lambda>_.
     and_then (check_is_iterable_of_strings (Obj string_iterable) True ''String Iterable'') (\<lambda>_.
       if \<not> py_contains string_iterable string_in then
         Inl (ValueError (name @ '' '' @ [CHR 0x27] @ fmt (Obj string_in) @ [CHR 0x27]
                          @ '' is not in the iterable. '' @ name @ '' must be one of: ''
                          @ [CHR 0x0A, CHR 0x09] @ fmt (Obj string_iterable)))
       else Inr ()))"

text \<open>
  \<open>check_is_number(num, *, definition='abstract', must_be_real=True, name='Object')\<close>.
\<close>

definition definitions :: pyobj where
  "definitions = PyList [PyStr ''abstract'', PyStr ''builtin'', PyStr ''numpy'']"

definition check_is_number :: "fmt \<Rightarrow> pyval \<Rightarrow> pyobj \<Rightarrow> bool \<Rightarrow> string \<Rightarrow> unit result" where
  "check_is_number fmt num definition must_be_real name =
     and_then (check_is_string_in_iterable fmt definition definitions ''String'') (\<lambda>_.
       if py_eq definition (PyStr ''abstract'') then
         check_is_instance num (if must_be_real then Cls C_Real else Cls C_Number) True name
       else if py_eq definition (PyStr ''builtin'') then
         check_is_instance num
           (if must_be_real then ClsTuple [C_float, C_int]
            else ClsTuple [C_float, C_int, C_complex]) True name
       else if py_eq definition (PyStr ''numpy'') then
         check_is_instance num
           (if must_be_real then ClsTuple [C_np NpFloating, C_np NpInteger]
            else Cls (C_np NpNumber)) True name
       else Inl NotImplementedError)"

section \<open>Coercion to an array\<close>

text \<open>
  The dtype NumPy gives a built-in scalar, and the dtype of a sequence that mixes them:
  booleans widen to integers, integers to floats, floats to complex numbers, and any
  number next to a string becomes text; \<open>None\<close> gives an object array.
\<close>

datatype pykind = KBool | KInt | KFloat | KComplex | KStr nat | KObject

fun kind_dtype :: "pykind \<Rightarrow> dtype" where
  "kind_dtype KBool = DBool"
| "kind_dtype KInt = Int64"
| "kind_dtype KFloat = Float64"
| "kind_dtype KComplex = Complex128"
| "kind_dtype (KStr n) = Unicode n"
| "kind_dtype KObject = DObject"

fun kind_rank :: "pykind \<Rightarrow> nat" where
  "kind_rank KBool = 0"
| "kind_rank KInt = 1"
| "kind_rank KFloat = 2"
| "kind_rank KComplex = 3"
| "kind_rank (KStr _) = 4"
| "kind_rank KObject = 5"

fun text_width :: "pykind \<Rightarrow> nat" where
  "text_width KBool = 5"
| "text_width KInt = 21"
| "text_width KFloat = 32"
| "text_width KComplex = 64"
| "text_width (KStr n) = n"
| "text_width KObject = 0"

definition kind_join :: "pykind \<Rightarrow> pykind \<Rightarrow> pykind" where
  "kind_join k l =
     (if k = KObject \<or> l = KObject then KObject
      else if kind_rank k = 4 \<or> kind_rank l = 4 then KStr (max (text_width k) (text_width l))
      else if kind_rank k \<le> kind_rank l then l else k)"

text \<open>
  The leaves of a nested sequence in row-major order, and its shape when every level is
  rectangular.
\<close>

fun leaves :: "pyobj \<Rightarrow> pyobj list" where
  "leaves (PyTuple xs) = concat (map leaves xs)"
| "leaves (PyList xs) = concat (map leaves xs)"
| "leaves x = [x]"

definition common_shape :: "nat list option list \<Rightarrow> nat list option" where
  "common_shape ss =
     (case ss of
        [] \<Rightarrow> Some []
      | s # rest \<Rightarrow> if list_all (\<lambda>t. t = s) rest then s else None)"

fun nested_shape :: "pyobj \<Rightarrow> nat list option" where
  "nested_shape (PyTuple xs) =
     (case common_shape (map nested_shape xs) of
        None \<Rightarrow> None | Some s \<Rightarrow> Some (length xs # (if xs = [] then [] else s)))"
| "nested_shape (PyList xs) =
     (case common_shape (map nested_shape xs) of
        None \<Rightarrow> None | Some s \<Rightarrow> Some (length xs # (if xs = [] then [] else s)))"
| "nested_shape x = Some []"

fun leaf_kind :: "pyobj \<Rightarrow> pykind" where
  "leaf_kind (PyBool _) = KBool"
| "leaf_kind (PyInt _) = KInt"
| "leaf_kind (PyFloat _) = KFloat"
| "leaf_kind (PyComplex _ _) = KComplex"
| "leaf_kind (PyStr s) = KStr (length s)"
| "leaf_kind _ = KObject"

fun leaf_value :: "pyobj \<Rightarrow> xnum" where
  "leaf_value (PyBool b) = Fin (if b then 1 else 0)"
| "leaf_value (PyInt n) = Fin (of_int n)"
| "leaf_value (PyFloat x) = x"
| "leaf_value (PyComplex re im) = re"
| "leaf_value _ = NaN"

definition leaves_kind :: "pyobj list \<Rightarrow> pykind" where
  "leaves_kind xs = (case xs of [] \<Rightarrow> KFloat | x # rest \<Rightarrow> foldl kind_join (leaf_kind x) (map leaf_kind rest))"

definition cannot_cast :: py_exn where
  "cannot_cast = ValueError (''Input cannot be cast as '' @ str_class C_ndarray @ ''.'')"

text \<open>
  Modelled from the spec: \<open>cast_to_ndarray\<close> of \<open>pyvista.core.utilities.arrays\<close>, the spec's
  \<open>coerce_to_array\<close>, is not among the sources. It gives any array-like or scalar-like
  input as an array with a concrete dtype and shape: an array is returned as it is, a
  number becomes a 0-dimensional array, a rectangular nested sequence an array of its
  leaves. A ragged sequence and an input that would give an object array are refused with
  a value error.
\<close>

definition cast_obj :: "pyobj \<Rightarrow> ndarray result" where
  "cast_obj x =
     (case nested_shape x of
        None \<Rightarrow> Inl cannot_cast
      | Some s \<Rightarrow>
          if leaves_kind (leaves x) = KObject then Inl cannot_cast
          else Inr \<lparr>dtype = kind_dtype (leaves_kind (leaves x)), shape = s,
                    data = map leaf_value (leaves x)\<rparr>)"

fun cast_to_ndarray :: "pyval \<Rightarrow> ndarray result" where
  "cast_to_ndarray (NdArray a) = (if dtype a = DObject then Inl cannot_cast else Inr a)"
| "cast_to_ndarray (NpScalar d v) =
     (if d = DObject then Inl cannot_cast else Inr \<lparr>dtype = d, shape = [], data = [v]\<rparr>)"
| "cast_to_ndarray (Obj x) = cast_obj x"

text \<open>\<open>arr if isinstance(arr, np.ndarray) else cast_to_ndarray(arr)\<close>.\<close>

fun as_array :: "pyval \<Rightarrow> ndarray result" where
  "as_array (NdArray a) = Inr a"
| "as_array x = cast_to_ndarray x"

section \<open>Dtype checks\<close>

text \<open>
  The subject of \<open>check_is_subdtype\<close> is a dtype or an array, whose dtype is then taken;
  the allowed base is one scalar class, or a list or a tuple of them.
\<close>

datatype dtype_arg = OfDType dtype | OfArray ndarray

datatype base_arg = Base np_class | BaseList "np_class list" | BaseTuple "np_class list"

fun arg_dtype :: "dtype_arg \<Rightarrow> dtype" where
  "arg_dtype (OfDType d) = d"
| "arg_dtype (OfArray a) = dtype a"

fun base_list :: "base_arg \<Rightarrow> np_class list" where
  "base_list (Base b) = [b]"
| "base_list (BaseList bs) = bs"
| "base_list (BaseTuple bs) = bs"

definition str_np_class :: "np_class \<Rightarrow> string" where
  "str_np_class c = str_class (C_np c)"

fun str_base :: "base_arg \<Rightarrow> string" where
  "str_base (Base b) = ''['' @ str_np_class b @ '']''"
| "str_base (BaseList bs) = ''['' @ comma_sep (map str_np_class bs) @ '']''"
| "str_base (BaseTuple bs) = str_tuple (map str_np_class bs)"

text \<open>\<open>check_is_subdtype(input_obj, base_dtype, *, name='Input')\<close>.\<close>

definition check_is_subdtype :: "dtype_arg \<Rightarrow> base_arg \<Rightarrow> string \<Rightarrow> unit result" where
  "check_is_subdtype input_obj base_dtype name =
     (let d = arg_dtype input_obj; bases = base_list base_dtype
      in if list_ex (issubdtype d) bases then Inr ()
         else
           let msg = name @ '' has incorrect dtype of '' @ [CHR 0x27] @ str_dtype d
                     @ [CHR 0x27] @ ''. ''
           in if length bases = 1 then
                Inl (TypeError (msg @ ''The dtype must be a subtype of ''
                                @ str_np_class (hd bases) @ ''.''))
              else
                Inl (TypeError (msg @ ''The dtype must be a subtype of at least one of ''
                                @ [CHR 0x0A] @ str_base base_dtype @ ''.'')))"

text \<open>
  \<open>check_is_numeric(arr, *, name='Array')\<close>. A type error of the sub-check is caught and
  replaced.
\<close>

definition check_is_numeric :: "pyval \<Rightarrow> string \<Rightarrow> unit result" where
  "check_is_numeric arr name =
     and_then (as_array arr) (\<lambda>a.
       if dtype_type (dtype a) \<in> set [NpInt32, NpInt64, NpFloat32, NpFloat64, NpComplex128]
       then Inr ()
       else
         (case check_is_subdtype (OfArray a) (Base NpNumber) name of
            Inl (TypeError e) \<Rightarrow> Inl (TypeError (name @ '' must be numeric.''))
          | r \<Rightarrow> r))"

text \<open>\<open>check_is_real(arr, *, name='Array')\<close>.\<close>

definition check_is_real :: "pyval \<Rightarrow> string \<Rightarrow> unit result" where
  "check_is_real arr name =
     and_then (as_array arr) (\<lambda>a.
       if dtype_type (dtype a) \<in> set [NpInt32, NpInt64, NpFloat32, NpFloat64]
       then Inr ()
       else
         (case check_is_subdtype (OfArray a) (BaseTuple [NpFloating, NpInteger]) name of
            Inl (TypeError e) \<Rightarrow> Inl (TypeError (name @ '' must have real numbers.''))
          | r \<Rightarrow> r))"

section \<open>Value checks\<close>

text \<open>\<open>np.all\<close> of a boolean array.\<close>

definition np_all :: "bool list \<Rightarrow> bool" where
  "np_all bs = list_all (\<lambda>b. b) bs"

text \<open>\<open>check_is_finite(arr, *, name='Array')\<close>.\<close>

definition check_is_finite :: "pyval \<Rightarrow> string \<Rightarrow> unit result" where
  "check_is_finite arr name =
     and_then (as_array arr) (\<lambda>a.
       if \<not> np_all (map xfinite (data a)) then
         Inl (ValueError (name @ '' must have finite values.''))
       else Inr ())"

text \<open>
  \<open>np.floor\<close> of an array: defined for boolean, integer and floating arrays, a type error
  for the other dtypes. \<open>np.array_equal\<close>: same shape and equal elements, where
  not-a-number equals nothing.
\<close>

definition np_floor :: "ndarray \<Rightarrow> xnum list result" where
  "np_floor a =
     (if real_valued a then Inr (map xfloor (data a))
      else Inl (TypeError (''ufunc '' @ [CHR 0x27] @ ''floor'' @ [CHR 0x27]
                           @ '' not supported for the input types'')))"

definition array_equal :: "xnum list \<Rightarrow> xnum list \<Rightarrow> bool" where
  "array_equal xs ys = (length xs = length ys \<and> np_all (map (\<lambda>(x, y). xeq x y) (zip xs ys)))"

text \<open>\<open>check_is_integerlike(arr, *, strict=False, name='Array')\<close>.\<close>

definition check_is_integerlike :: "pyval \<Rightarrow> bool \<Rightarrow> string \<Rightarrow> unit result" where
  "check_is_integerlike arr strict name =
     and_then (as_array arr) (\<lambda>a.
       if strict then check_is_subdtype (OfArray a) (Base NpInteger) ''Input''
       else
         and_then (np_floor a) (\<lambda>floored.
           if \<not> array_equal (data a) floored then
             Inl (ValueError (name @ '' must have integer-like values.''))
           else Inr ()))"

text \<open>
  The value of a real number, for the comparison of an array with it. The comparison is
  the exact one.
\<close>

fun real_val :: "pyval \<Rightarrow> xnum option" where
  "real_val (Obj (PyBool b)) = Some (Fin (if b then 1 else 0))"
| "real_val (Obj (PyInt n)) = Some (Fin (of_int n))"
| "real_val (Obj (PyFloat x)) = Some x"
| "real_val (NpScalar d v) = Some v"
| "real_val _ = None"

definition not_comparable :: py_exn where
  "not_comparable = TypeError ''comparison is not supported between these operands''"

text \<open>
  \<open>check_is_greater_than(arr, value, *, strict=True, name='Array')\<close>. The two sub-checks of
  the value run with their default names.
\<close>

definition check_is_greater_than :: "fmt \<Rightarrow> pyval \<Rightarrow> pyval \<Rightarrow> bool \<Rightarrow> string \<Rightarrow> unit result" where
  "check_is_greater_than fmt arr value strict name =
     and_then (as_array arr) (\<lambda>a.
     and_then (check_is_number fmt value (PyStr ''abstract'') True ''Object'') (\<lambda>_.
     and_then (check_is_real value ''Array'') (\<lambda>_.
       case real_val value of
         None \<Rightarrow> Inl not_comparable
       | Some v \<Rightarrow>
           if strict \<and> \<not> np_all (map (\<lambda>x. xlt v x) (data a)) then
             Inl (ValueError (name @ '' values must all be greater than '' @ fmt value @ ''.''))
           else if \<not> np_all (map (\<lambda>x. xle v x) (data a)) then
             Inl (ValueError (name @ '' values must all be greater than or equal to ''
                              @ fmt value @ ''.''))
           else Inr ())))"

text \<open>\<open>check_is_less_than(arr, value, *, strict=True, name='Array')\<close>.\<close>

definition check_is_less_than :: "fmt \<Rightarrow> pyval \<Rightarrow> pyval \<Rightarrow> bool \<Rightarrow> string \<Rightarrow> unit result" where
  "check_is_less_than fmt arr value strict name =
     and_then (as_array arr) (\<lambda>a.
     and_then (check_is_number fmt value (PyStr ''abstract'') True ''Object'') (\<lambda>_.
     and_then (check_is_real value ''Array'') (\<lambda>_.
       case real_val value of
         None \<Rightarrow> Inl not_comparable
       | Some v \<Rightarrow>
           if strict \<and> \<not> np_all (map (\<lambda>x. xlt x v) (data a)) then
             Inl (ValueError (name @ '' values must all be less than '' @ fmt value @ ''.''))
           else if \<not> np_all (map (\<lambda>x. xle x v) (data a)) then
             Inl (ValueError (name @ '' values must all be less than or equal to ''
                              @ fmt value @ ''.''))
           else Inr ())))"

text \<open>\<open>check_is_nonnegative(arr, *, name='Array')\<close>.\<close>

definition check_is_nonnegative :: "fmt \<Rightarrow> pyval \<Rightarrow> string \<Rightarrow> unit result" where
  "check_is_nonnegative fmt arr name = check_is_greater_than fmt arr (Obj (PyInt 0)) False name"

section \<open>Shape checks\<close>

text \<open>The literal shapes that \<open>_validate_shape_value\<close> returns at once.\<close>

definition common_shapes :: "pyobj list" where
  "common_shapes =
     [PyTuple [PyInt (- 1)], PyTuple [PyInt 1], PyTuple [PyInt 3], PyTuple [PyInt 2],
      PyTuple [PyInt 1, PyInt 3], PyTuple [PyInt (- 1), PyInt 3]]"

text \<open>\<open>isinstance(shape, tuple) and all(map(_is_valid_dim, shape))\<close>.\<close>

fun is_valid_tuple :: "pyobj \<Rightarrow> bool" where
  "is_valid_tuple (PyTuple xs) = list_all is_valid_dim xs"
| "is_valid_tuple _ = False"

text \<open>
  The part of \<open>_validate_shape_value\<close> after the early returns: a valid dimension becomes a
  1-tuple, a tuple of valid dimensions is returned as it is, and anything else is passed
  through the checks that raise the error for it.
\<close>

definition validate_shape_general :: "fmt \<Rightarrow> pyobj \<Rightarrow> pyobj result" where
  "validate_shape_general fmt shp =
     (if is_valid_dim shp then Inr (PyTuple [shp])
      else if is_valid_tuple shp then Inr shp
      else
        and_then (check_is_instance (Obj shp) (ClsTuple [C_int, C_tuple]) True ''Shape'') (\<lambda>_.
        and_then
          (if isinstance (Obj shp) (Cls C_int) then Inr (PyTuple [shp])
           else and_then (check_is_iterable_of_some_type (Obj shp) (Cls C_int) True ''Shape'')
                  (\<lambda>_. Inr shp)) (\<lambda>shp'.
        and_then (check_is_greater_than fmt (Obj shp') (Obj (PyInt (- 1))) False ''Shape'') (\<lambda>_.
          Inl (RuntimeError ''This line should not be reachable.'')))))"

text \<open>\<open>_validate_shape_value(shape)\<close>.\<close>

definition validate_shape_value :: "fmt \<Rightarrow> pyobj \<Rightarrow> pyobj result" where
  "validate_shape_value fmt shp =
     (if shp = PyNone then
        Inl (TypeError ''`None` is not a valid shape. Use `()` instead.'')
      else if py_eq shp (PyTuple []) then Inr shp
      else if list_ex (\<lambda>literal. py_eq literal shp) common_shapes then Inr shp
      else validate_shape_general fmt shp)"

text \<open>
  The general validation path: \<open>_validate_shape_value\<close> without its two early returns,
  for comparison with the function as it is.
\<close>

definition validate_shape_without_early_return :: "fmt \<Rightarrow> pyobj \<Rightarrow> pyobj result" where
  "validate_shape_without_early_return fmt shp =
     (if shp = PyNone then
        Inl (TypeError ''`None` is not a valid shape. Use `()` instead.'')
      else validate_shape_general fmt shp)"

text \<open>
  A shape-like input, \<open>Union[int, Tuple[()], Tuple[int, ...]]\<close>: an integer or a tuple of
  integers, of any value. A shape spec is a shape-like input that is valid: its entries are
  not below -1.
\<close>

fun shape_like :: "pyobj \<Rightarrow> bool" where
  "shape_like (PyTuple xs) = list_all (\<lambda>d. int_val d \<noteq> None) xs"
| "shape_like d = (int_val d \<noteq> None)"

definition valid_shape_spec :: "pyobj \<Rightarrow> bool" where
  "valid_shape_spec s = (is_valid_dim s \<or> is_valid_tuple s)"

text \<open>The tuple that a shape spec stands for: a single dimension is a 1-tuple.\<close>

definition normalized :: "pyobj \<Rightarrow> pyobj" where
  "normalized s = (if is_valid_dim s then PyTuple [s] else s)"

text \<open>The items of a tuple; of a list, when \<open>shape\<close> is given as a list of shapes.\<close>

fun items :: "pyobj \<Rightarrow> pyobj list" where
  "items (PyTuple xs) = xs"
| "items (PyList xs) = xs"
| "items _ = []"

text \<open>
  The loop of \<open>check_has_shape\<close> over the allowed shapes: \<open>True\<close> when one of them matched
  and the check returned, \<open>False\<close> when the loop ran to its end.
\<close>

fun match_any_shape :: "fmt \<Rightarrow> pyobj list \<Rightarrow> pyobj list \<Rightarrow> bool result" where
  "match_any_shape fmt array_shape [] = Inr False"
| "match_any_shape fmt array_shape (input_shape # rest) =
     and_then (validate_shape_value fmt input_shape) (\<lambda>validated.
       if shape_is_allowed array_shape (items validated) then Inr True
       else match_any_shape fmt array_shape rest)"

text \<open>\<open>check_has_shape(arr, shape, *, name='Array')\<close>.\<close>

definition check_has_shape :: "fmt \<Rightarrow> pyval \<Rightarrow> pyobj \<Rightarrow> string \<Rightarrow> unit result" where
  "check_has_shape fmt arr shape0 name =
     and_then (as_array arr) (\<lambda>a.
       let shape_list = (if obj_type shape0 \<noteq> C_list then [shape0] else items shape0)
       in and_then (match_any_shape fmt (shape_tuple (shape a)) shape_list) (\<lambda>matched.
            if matched then Inr ()
            else
              let msg = name @ '' has shape '' @ str_shape (shape a) @ '' which is not allowed. ''
              in if length shape_list = 1 then
                   Inl (ValueError (msg @ ''Shape must be '' @ fmt (Obj (hd shape_list)) @ ''.''))
                 else
                   Inl (ValueError (msg @ ''Shape must be one of ''
                                    @ fmt (Obj (PyList shape_list)) @ ''.''))))"

section \<open>Sorting and ranges\<close>

text \<open>
  The pairs of consecutive elements along one axis of an array in row-major order:
  \<open>arr[first]\<close> against \<open>arr[second]\<close>, where the two index tuples take all but the last
  and all but the first position of that axis.
\<close>

definition axis_pairs :: "nat list \<Rightarrow> nat \<Rightarrow> xnum list \<Rightarrow> (xnum \<times> xnum) list" where
  "axis_pairs shp ax xs =
     (let stride = prod_list (drop (Suc ax) shp); n = shp ! ax
      in map (\<lambda>i. (xs ! i, xs ! (i + stride)))
           (filter (\<lambda>i. Suc ((i div stride) mod n) < n) [0 ..< prod_list shp]))"

text \<open>The comparison selected by \<open>ascending\<close> and \<open>strict\<close>, and the final test with its error.\<close>

definition in_order :: "bool \<Rightarrow> bool \<Rightarrow> xnum \<times> xnum \<Rightarrow> bool" where
  "in_order ascending strict p =
     (case p of (x, y) \<Rightarrow>
        if ascending \<and> \<not> strict then xle x y
        else if ascending \<and> strict then xlt x y
        else if \<not> ascending \<and> \<not> strict then xle y x
        else xlt y x)"

definition sorted_along :: "fmt \<Rightarrow> ndarray \<Rightarrow> nat \<Rightarrow> bool \<Rightarrow> bool \<Rightarrow> string \<Rightarrow> unit result" where
  "sorted_along fmt a ax ascending strict name =
     (let is_sorted = np_all (map (in_order ascending strict) (axis_pairs (shape a) ax (data a)))
      in if \<not> is_sorted then
           let msg_body = (if arr_size a \<le> 4 then fmt (NdArray a)
                           else ''with '' @ str_nat (arr_size a) @ '' elements'');
               order = (if ascending then ''ascending'' else ''descending'');
               strict_text = (if strict then ''strict '' else '''')
           in Inl (ValueError (name @ '' '' @ msg_body @ '' must be sorted in ''
                               @ strict_text @ order @ '' order.''))
         else Inr ())"

text \<open>\<open>arr.flatten()\<close>.\<close>

definition flatten :: "ndarray \<Rightarrow> ndarray" where
  "flatten a = a\<lparr>shape := [arr_size a]\<rparr>"

text \<open>
  \<open>int(axis)\<close> for an axis that passed the number and the integer-like check: a boolean,
  an integer, or a float without fractional part. An infinite float cannot be converted.
\<close>

fun py_int :: "pyobj \<Rightarrow> int result" where
  "py_int (PyBool b) = Inr (if b then 1 else 0)"
| "py_int (PyInt n) = Inr n"
| "py_int (PyFloat (Fin q)) = Inr (if q < 0 then - \<lfloor>- q\<rfloor> else \<lfloor>q\<rfloor>)"
| "py_int (PyFloat NaN) = Inl (ValueError ''cannot convert float NaN to integer'')"
| "py_int (PyFloat _) = Inl (OverflowError ''cannot convert float infinity to integer'')"
| "py_int _ = Inl (TypeError ''int() argument must be a string, a bytes-like object or a real number'')"

text \<open>
  The axis that equals -1 and so skipped its validation: \<open>axis < 0\<close> and the use of the axis
  as a list index work for an integer and raise a type error for a float or a complex
  number equal to -1.
\<close>

fun unvalidated_axis :: "pyobj \<Rightarrow> int result" where
  "unvalidated_axis (PyInt n) = Inr n"
| "unvalidated_axis (PyBool b) = Inr (if b then 1 else 0)"
| "unvalidated_axis (PyFloat _) =
     Inl (TypeError ''list indices must be integers or slices, not float'')"
| "unvalidated_axis _ =
     Inl (TypeError ([CHR 0x27] @ ''<'' @ [CHR 0x27] @ '' not supported between instances of ''
                     @ [CHR 0x27] @ ''complex'' @ [CHR 0x27] @ '' and ''
                     @ [CHR 0x27] @ ''int'' @ [CHR 0x27]))"

text \<open>The element of an array at a position of its row-major data.\<close>

definition item :: "ndarray \<Rightarrow> nat \<Rightarrow> pyval" where
  "item a i = NpScalar (dtype a) (data a ! i)"

text \<open>
  \<open>check_is_sorted(arr, *, ascending=True, strict=False, axis=-1, name='Array')\<close> and
  \<open>check_is_in_range(arr, rng, *, strict_lower=False, strict_upper=False, name='Array')\<close>.
  The first validates an axis other than -1 with the second, and the second checks its
  bounds with the first at the default axis.
\<close>

function check_is_sorted :: "fmt \<Rightarrow> pyval \<Rightarrow> bool \<Rightarrow> bool \<Rightarrow> pyobj \<Rightarrow> string \<Rightarrow> unit result"
  and check_is_in_range :: "fmt \<Rightarrow> pyval \<Rightarrow> pyval \<Rightarrow> bool \<Rightarrow> bool \<Rightarrow> string \<Rightarrow> unit result"
where
  "check_is_sorted fmt arr ascending strict axis name =
     (case as_array arr of
        Inl e \<Rightarrow> Inl e
      | Inr a \<Rightarrow>
          if ndim a = 0 then Inr ()
          else if axis = PyNone then
            sorted_along fmt (flatten a) 0 ascending strict name
          else if \<not> py_eq axis (PyInt (- 1)) then
            (case check_is_number fmt (Obj axis) (PyStr ''abstract'') True ''Axis'' of
               Inl e \<Rightarrow> Inl e
             | Inr _ \<Rightarrow>
            (case check_is_integerlike (Obj axis) False ''Axis'' of
               Inl e \<Rightarrow> Inl e
             | Inr _ \<Rightarrow>
            (case py_int axis of
               Inl e \<Rightarrow> Inl e
             | Inr k \<Rightarrow>
            (case check_is_in_range fmt (Obj (PyInt k))
                    (Obj (PyList [PyInt (- int (ndim a)), PyInt (int (ndim a) - 1)]))
                    False False ''Axis'' of
               Inl (ValueError e) \<Rightarrow>
                 Inl (ValueError (''Axis '' @ str_int k @ '' is out of bounds for ndim ''
                                  @ str_nat (ndim a) @ ''.''))
             | Inl e \<Rightarrow> Inl e
             | Inr _ \<Rightarrow>
                 sorted_along fmt a (nat (if k < 0 then int (ndim a) + k else k))
                   ascending strict name))))
          else
            (case unvalidated_axis axis of
               Inl e \<Rightarrow> Inl e
             | Inr k \<Rightarrow>
                 sorted_along fmt a (nat (if k < 0 then int (ndim a) + k else k))
                   ascending strict name))"
| "check_is_in_range fmt arr rng strict_lower strict_upper name =
     (case cast_to_ndarray rng of
        Inl e \<Rightarrow> Inl e
      | Inr rng_arr \<Rightarrow>
     (case check_has_shape fmt (NdArray rng_arr) (PyInt 2) ''Range'' of
        Inl e \<Rightarrow> Inl e
      | Inr _ \<Rightarrow>
     (case check_is_sorted fmt (NdArray rng_arr) True False (PyInt (- 1)) ''Range'' of
        Inl e \<Rightarrow> Inl e
      | Inr _ \<Rightarrow>
     (case as_array arr of
        Inl e \<Rightarrow> Inl e
      | Inr a \<Rightarrow>
     (case check_is_greater_than fmt (NdArray a) (item rng_arr 0) strict_lower name of
        Inl e \<Rightarrow> Inl e
      | Inr _ \<Rightarrow> check_is_less_than fmt (NdArray a) (item rng_arr 1) strict_upper name)))))"
  by pat_completeness auto
termination
  by (relation "measure (\<lambda>c. case c of
        Inl (fmt, arr, ascending, strict, axis, name) \<Rightarrow>
          (if axis \<noteq> PyNone \<and> \<not> py_eq axis (PyInt (- 1)) then 2 else 0)
      | Inr _ \<Rightarrow> 1)") auto

declare check_is_sorted.simps [simp del] check_is_in_range.simps [simp del]

section \<open>Scalars and lengths\<close>

text \<open>\<open>check_is_scalar(scalar, *, must_be_real=True, name='Scalar')\<close>.\<close>

definition check_is_scalar :: "fmt \<Rightarrow> pyval \<Rightarrow> bool \<Rightarrow> string \<Rightarrow> unit result" where
  "check_is_scalar fmt scalar must_be_real name =
     (case scalar of
        NdArray a \<Rightarrow>
          if ndim a > 0 then
            Inl (ValueError (name @ '' must be a 0-dimensional array, got `ndim=''
                             @ str_nat (ndim a) @ ''` instead.''))
          else if must_be_real then check_is_real scalar name
          else check_is_numeric scalar name
      | _ \<Rightarrow> check_is_number fmt scalar (PyStr ''abstract'') must_be_real ''Object'')"

text \<open>
  \<open>len(arr)\<close>: the number of items of a list, tuple or string, the first dimension of an
  array; a 0-dimensional array and a number have no length.
\<close>

fun py_len :: "pyval \<Rightarrow> nat result" where
  "py_len (Obj (PyList xs)) = Inr (length xs)"
| "py_len (Obj (PyTuple xs)) = Inr (length xs)"
| "py_len (Obj (PyStr s)) = Inr (length s)"
| "py_len (NdArray a) =
     (case shape a of [] \<Rightarrow> Inl (TypeError ''len() of unsized object'') | n # _ \<Rightarrow> Inr n)"
| "py_len (NpScalar (Unicode n) v) = Inr n"
| "py_len x =
     Inl (TypeError (''object of type '' @ [CHR 0x27] @ class_name (type_of x) @ [CHR 0x27]
                     @ '' has no len()''))"

text \<open>\<open>np.array([arr])\<close> for a number, and \<open>arr.reshape((1,))\<close> for a 0-dimensional array.\<close>

fun array_of_one :: "pyval \<Rightarrow> pyval" where
  "array_of_one (Obj x) =
     NdArray \<lparr>dtype = kind_dtype (leaf_kind x), shape = [1], data = [leaf_value x]\<rparr>"
| "array_of_one (NpScalar d v) = NdArray \<lparr>dtype = d, shape = [1], data = [v]\<rparr>"
| "array_of_one (NdArray a) = NdArray (a\<lparr>shape := [1]\<rparr>)"

text \<open>
  The first step of \<open>check_has_length\<close>: with \<open>allow_scalar\<close>, a number and a
  0-dimensional array become an array of length 1.
\<close>

definition reshape_scalar :: "bool \<Rightarrow> pyval \<Rightarrow> pyval" where
  "reshape_scalar allow_scalar arr =
     (if allow_scalar then
        (if isinstance arr (Cls C_Number) then array_of_one arr
         else (case arr of
                 NdArray a \<Rightarrow> if ndim a = 0 then array_of_one arr else arr
               | _ \<Rightarrow> arr))
      else arr)"

text \<open>The element of a 0-dimensional array.\<close>

definition item0 :: "ndarray \<Rightarrow> xnum" where
  "item0 a = (case data a of [] \<Rightarrow> NaN | x # _ \<Rightarrow> x)"

text \<open>
  The validation of \<open>min_length\<close> or \<open>max_length\<close>: coercion to an array, then
  \<open>check_is_scalar\<close> and \<open>check_is_real\<close> under the given name.
\<close>

definition validate_length_bound :: "fmt \<Rightarrow> pyobj \<Rightarrow> string \<Rightarrow> ndarray result" where
  "validate_length_bound fmt bound name =
     and_then (cast_to_ndarray (Obj bound)) (\<lambda>b.
     and_then (check_is_scalar fmt (NdArray b) True name) (\<lambda>_.
     and_then (check_is_real (NdArray b) name) (\<lambda>_. Inr b)))"

fun validate_optional_bound :: "fmt \<Rightarrow> pyobj option \<Rightarrow> string \<Rightarrow> ndarray option result" where
  "validate_optional_bound fmt None name = Inr None"
| "validate_optional_bound fmt (Some bound) name =
     and_then (validate_length_bound fmt bound name) (\<lambda>b. Inr (Some b))"

text \<open>
  \<open>check_has_length(arr, *, exact_length=None, min_length=None, max_length=None,
  must_be_1d=False, allow_scalar=False, name='Array')\<close>. The two bounds are plain objects;
  the pair \<open>(min_length, max_length)\<close> of their arrays, which the source coerces again for
  the sort check, is the coercion of the pair of the two objects.
\<close>

definition check_has_length ::
    "fmt \<Rightarrow> pyval \<Rightarrow> pyval option \<Rightarrow> pyobj option \<Rightarrow> pyobj option \<Rightarrow> bool \<Rightarrow> bool \<Rightarrow> string
     \<Rightarrow> unit result" where
  "check_has_length fmt arr0 exact_length min_length max_length must_be_1d allow_scalar name =
     (let arr = reshape_scalar allow_scalar arr0
      in
      and_then (check_is_instance arr (ClsTuple [C_Sequence, C_ndarray]) True name) (\<lambda>_.
      and_then (if must_be_1d then check_has_shape fmt arr (PyInt (- 1)) ''Array'' else Inr ()) (\<lambda>_.
      and_then (py_len arr) (\<lambda>arr_len.
      and_then
        (case exact_length of
           None \<Rightarrow> Inr ()
         | Some exact \<Rightarrow>
             and_then (cast_to_ndarray exact) (\<lambda>exact_arr.
             and_then (check_is_integerlike (NdArray exact_arr) False
                         ([CHR 0x27] @ ''exact_length'' @ [CHR 0x27])) (\<lambda>_.
               if \<not> list_ex (\<lambda>x. xeq x (Fin (of_nat arr_len))) (data exact_arr) then
                 Inl (ValueError (name @ '' must have a length equal to any of: ''
                                  @ fmt (NdArray exact_arr) @ ''. Got length ''
                                  @ str_nat arr_len @ '' instead.''))
               else Inr ()))) (\<lambda>_.
      and_then (validate_optional_bound fmt min_length ''Min length'') (\<lambda>min_arr.
      and_then (validate_optional_bound fmt max_length ''Max length'') (\<lambda>max_arr.
      and_then
        (case (min_length, max_length) of
           (Some lo, Some hi) \<Rightarrow>
             check_is_sorted fmt (Obj (PyTuple [lo, hi])) True False (PyInt (- 1)) ''Range''
         | _ \<Rightarrow> Inr ()) (\<lambda>_.
      and_then
        (case min_arr of
           None \<Rightarrow> Inr ()
         | Some lo \<Rightarrow>
             if xlt (Fin (of_nat arr_len)) (item0 lo) then
               Inl (ValueError (name @ '' must have a minimum length of '' @ fmt (NdArray lo)
                                @ ''. Got length '' @ str_nat arr_len @ '' instead.''))
             else Inr ()) (\<lambda>_.
        (case max_arr of
           None \<Rightarrow> Inr ()
         | Some hi \<Rightarrow>
             if xlt (item0 hi) (Fin (of_nat arr_len)) then
               Inl (ValueError (name @ '' must have a maximum length of '' @ fmt (NdArray hi)
                                @ ''. Got length '' @ str_nat arr_len @ '' instead.''))
             else Inr ()))))))))))"

section \<open>Failures of sub-checks\<close>

text \<open>
  A call whose value is not used, as a step that passes or raises; and the failure of the
  first step of a sequence that raises.
\<close>

definition step :: "'a result \<Rightarrow> unit result" where
  "step r = and_then r (\<lambda>_. Inr ())"

fun first_failure :: "unit result list \<Rightarrow> unit result" where
  "first_failure [] = Inr ()"
| "first_failure (r # rs) = (case r of Inl e \<Rightarrow> Inl e | Inr _ \<Rightarrow> first_failure rs)"

text \<open>
  A check hands on the failures of the calls it makes in this order: when one of them is
  the first to raise, the check raises the same exception with the same message.
\<close>

definition hands_on :: "unit result list \<Rightarrow> 'a result \<Rightarrow> bool" where
  "hands_on calls whole = (case first_failure calls of Inl e \<Rightarrow> whole = Inl e | Inr _ \<Rightarrow> True)"

text \<open>A result that, when it is a failure, has a message starting with one of the labels.\<close>

definition starts_with :: "string list \<Rightarrow> 'a result \<Rightarrow> bool" where
  "starts_with labels r =
     (case r of Inl e \<Rightarrow> list_ex (\<lambda>l. prefix l (message e)) labels | Inr _ \<Rightarrow> True)"


section \<open>Properties\<close>

lemma py_eq_int_val:
  "int_val y = Some n \<Longrightarrow> py_eq (PyInt m) y = (m = n)"
  by (cases y) (auto split: if_splits)

lemma py_eq_int_val_minus1:
  "int_val y = Some n \<Longrightarrow> py_eq y (PyInt (- 1)) = (n = - 1)"
  by (cases y) (auto split: if_splits)

lemma list_all_zip_nth:
  "length xs = length ys \<Longrightarrow>
     list_all P (zip xs ys) = (\<forall>i < length xs. P (xs ! i, ys ! i))"
  by (auto simp: list_all_iff set_zip)

text \<open>
  C5. A concrete shape \<open>s\<close> is accepted against a normalized spec \<open>w\<close> (every entry an
  integer not below -1) exactly when the two have the same length and at every position
  the size equals the entry or the entry is -1. Shapes of different lengths never match.
\<close>

theorem shape_is_allowed_iff:
  assumes "list_all is_valid_dim w"
  shows "shape_is_allowed (shape_tuple s) w \<longleftrightarrow>
           length s = length w
           \<and> (\<forall>i < length s. int_val (w ! i) = Some (int (s ! i)) \<or> int_val (w ! i) = Some (- 1))"
proof (cases "length s = length w")
  case False
  then show ?thesis by (simp add: shape_is_allowed_def shape_tuple_def)
next
  case True
  have dims: "\<exists>n. int_val (w ! i) = Some n" if "i < length w" for i
  proof -
    from assms that have "is_valid_dim (w ! i)" by (simp add: list_all_length)
    then show ?thesis by (auto simp: is_valid_dim_def split: option.splits)
  qed
  have "list_all (\<lambda>(x, y). if py_eq x y then True else py_eq y (PyInt (- 1)))
          (zip (shape_tuple s) w)
        \<longleftrightarrow> (\<forall>i < length s. int_val (w ! i) = Some (int (s ! i)) \<or> int_val (w ! i) = Some (- 1))"
  proof -
    have "(if py_eq (PyInt (int (s ! i))) (w ! i) then True else py_eq (w ! i) (PyInt (- 1)))
          \<longleftrightarrow> (int_val (w ! i) = Some (int (s ! i)) \<or> int_val (w ! i) = Some (- 1))"
      if "i < length s" for i
    proof -
      from that True dims obtain n where n: "int_val (w ! i) = Some n" by auto
      show ?thesis
        using py_eq_int_val [OF n, of "int (s ! i)"] py_eq_int_val_minus1 [OF n] n by auto
    qed
    then show ?thesis
      using True by (simp add: list_all_zip_nth shape_tuple_def)
  qed
  with True show ?thesis by (simp add: shape_is_allowed_def shape_tuple_def)
qed

theorem shape_is_allowed_iff_witness:
  "list_all is_valid_dim [PyInt (- 1), PyInt 3]
   \<and> shape_is_allowed (shape_tuple [5, 3]) [PyInt (- 1), PyInt 3]
   \<and> \<not> shape_is_allowed (shape_tuple [5, 3]) [PyInt 3]"
proof -
  have h: "list_all is_valid_dim [PyInt (- 1), PyInt 3]"
    by (simp add: is_valid_dim_def)
  have h': "list_all is_valid_dim [PyInt 3]"
    by (simp add: is_valid_dim_def)
  show ?thesis
    using h shape_is_allowed_iff [OF h, of "[5, 3]"] shape_is_allowed_iff [OF h', of "[5, 3]"]
    by (simp add: nth_Cons split: nat.splits)
qed

subsection \<open>Numbers and booleans\<close>

lemma definitions_ok:
  "check_is_iterable_of_strings (Obj definitions) True n = Inr ()"
  by (simp add: check_is_iterable_of_strings_def check_is_iterable_of_some_type_def
      check_is_iterable_def check_is_instance_def definitions_def and_then_def issubclass_def
      sequence_abcs_def)

lemma known_definition:
  assumes "d \<in> {''abstract'', ''builtin'', ''numpy''}"
  shows "check_is_string_in_iterable fmt (PyStr d) definitions n = Inr ()"
proof -
  have "py_contains definitions (PyStr d)"
    using assms by (auto simp: definitions_def)
  then show ?thesis
    by (simp add: check_is_string_in_iterable_def definitions_ok check_is_string_def
        check_is_instance_def and_then_def issubclass_def sequence_abcs_def)
qed

lemma np_bool_no_instance:
  "\<not> isinstance (NpScalar DBool v) (Cls C_Real)"
  "\<not> isinstance (NpScalar DBool v) (Cls C_Number)"
  "\<not> isinstance (NpScalar DBool v) (ClsTuple [C_float, C_int])"
  "\<not> isinstance (NpScalar DBool v) (ClsTuple [C_float, C_int, C_complex])"
  "\<not> isinstance (NpScalar DBool v) (ClsTuple [C_np NpFloating, C_np NpInteger])"
  "\<not> isinstance (NpScalar DBool v) (Cls (C_np NpNumber))"
  by (simp_all add: issubclass_def np_registered_def np_issubclass_def)



lemma isinstance_union_args: "isinstance obj (union_args ci) = isinstance obj ci"
  by (cases ci) simp_all

lemma check_is_instance_subclass:
  "check_is_instance obj ci True name =
     (if isinstance obj ci then Inr ()
      else Inl (TypeError (name @ '' ''
             @ (if num_classes (union_args ci) = 1 then ''must be an instance of''
                else ''must be an instance of any type'')
             @ '' '' @ str_classinfo (union_args ci)
             @ ''. Got '' @ str_class (type_of obj) @ '' instead.'')))"
  by (simp add: check_is_instance_def Let_def isinstance_union_args del: isinstance.simps)


lemma check_is_instance_rejects:
  "\<not> isinstance obj ci \<Longrightarrow> \<exists>m. check_is_instance obj ci True name = Inl (TypeError m)"
  by (simp add: check_is_instance_subclass del: isinstance.simps)

lemma check_is_number_known:
  assumes "d \<in> {''abstract'', ''builtin'', ''numpy''}"
  shows "check_is_number fmt num (PyStr d) must_be_real name =
     check_is_instance num
       (if d = ''abstract'' then (if must_be_real then Cls C_Real else Cls C_Number)
        else if d = ''builtin'' then
          (if must_be_real then ClsTuple [C_float, C_int]
           else ClsTuple [C_float, C_int, C_complex])
        else (if must_be_real then ClsTuple [C_np NpFloating, C_np NpInteger]
              else Cls (C_np NpNumber))) True name"
proof -
  have ok: "check_is_string_in_iterable fmt (PyStr d) definitions ''String'' = Inr ()"
    using assms by (rule known_definition)
  from assms consider "d = ''abstract''" | "d = ''builtin''" | "d = ''numpy''" by auto
  then show ?thesis
    using ok by cases (simp_all add: check_is_number_def and_then_def)
qed

lemma np_bool_rejected:
  assumes "d \<in> {''abstract'', ''builtin'', ''numpy''}"
  shows "\<exists>m. check_is_number fmt (NpScalar DBool v) (PyStr d) must_be_real name
               = Inl (TypeError m)"
  unfolding check_is_number_known [OF assms]
  by (rule check_is_instance_rejects) (simp add: np_bool_no_instance del: isinstance.simps)

lemma bool_is_instance:
  "isinstance (Obj (PyBool b)) (Cls C_Real)"
  "isinstance (Obj (PyBool b)) (Cls C_Number)"
  "isinstance (Obj (PyBool b)) (ClsTuple [C_float, C_int])"
  "isinstance (Obj (PyBool b)) (ClsTuple [C_float, C_int, C_complex])"
  "\<not> isinstance (Obj (PyBool b)) (ClsTuple [C_np NpFloating, C_np NpInteger])"
  "\<not> isinstance (Obj (PyBool b)) (Cls (C_np NpNumber))"
  by (simp_all add: issubclass_def integral_tower_def)

text \<open>
  C1 (as the code has it). A NumPy boolean scalar is rejected with a type error under each
  of the three definitions, with and without \<open>must_be_real\<close>. A built-in \<open>bool\<close> is rejected
  with a type error under the \<open>numpy\<close> definition only: under \<open>abstract\<close> and \<open>builtin\<close> it
  is accepted, \<open>bool\<close> being a subclass of \<open>int\<close>.
\<close>

theorem check_is_number_boolean:
  "(\<exists>m. check_is_number fmt (NpScalar DBool v) (PyStr ''abstract'') must_be_real name
          = Inl (TypeError m))
   \<and> (\<exists>m. check_is_number fmt (NpScalar DBool v) (PyStr ''builtin'') must_be_real name
          = Inl (TypeError m))
   \<and> (\<exists>m. check_is_number fmt (NpScalar DBool v) (PyStr ''numpy'') must_be_real name
          = Inl (TypeError m))
   \<and> (\<exists>m. check_is_number fmt (Obj (PyBool b)) (PyStr ''numpy'') must_be_real name
          = Inl (TypeError m))
   \<and> check_is_number fmt (Obj (PyBool b)) (PyStr ''abstract'') must_be_real name = Inr ()
   \<and> check_is_number fmt (Obj (PyBool b)) (PyStr ''builtin'') must_be_real name = Inr ()"
proof (intro conjI)
  show "\<exists>m. check_is_number fmt (NpScalar DBool v) (PyStr ''abstract'') must_be_real name
          = Inl (TypeError m)"
    by (rule np_bool_rejected) simp
  show "\<exists>m. check_is_number fmt (NpScalar DBool v) (PyStr ''builtin'') must_be_real name
          = Inl (TypeError m)"
    by (rule np_bool_rejected) simp
  show "\<exists>m. check_is_number fmt (NpScalar DBool v) (PyStr ''numpy'') must_be_real name
          = Inl (TypeError m)"
    by (rule np_bool_rejected) simp
  show "\<exists>m. check_is_number fmt (Obj (PyBool b)) (PyStr ''numpy'') must_be_real name
          = Inl (TypeError m)"
    by (simp add: check_is_number_known check_is_instance_subclass bool_is_instance
        del: isinstance.simps)
  show "check_is_number fmt (Obj (PyBool b)) (PyStr ''abstract'') must_be_real name = Inr ()"
    by (simp add: check_is_number_known check_is_instance_subclass bool_is_instance
        del: isinstance.simps)
  show "check_is_number fmt (Obj (PyBool b)) (PyStr ''builtin'') must_be_real name = Inr ()"
    by (simp add: check_is_number_known check_is_instance_subclass bool_is_instance
        del: isinstance.simps)
qed

text \<open>
  C1 as stated fails for the built-in \<open>True\<close> under the default definition:
  \<open>check_is_number(True)\<close> returns without raising.
\<close>

theorem check_is_number_boolean_counterexample:
  "check_is_number no_text (Obj (PyBool True)) (PyStr ''abstract'') True ''Object'' = Inr ()"
  by (simp add: check_is_number_known check_is_instance_subclass bool_is_instance
      del: isinstance.simps)

subsection \<open>Shape normalization\<close>

lemma py_eq_empty_tuple: "py_eq shp (PyTuple []) \<Longrightarrow> shp = PyTuple []"
proof (cases shp)
  case (PyTuple xs)
  assume "py_eq shp (PyTuple [])"
  with PyTuple show ?thesis by (cases xs) simp_all
qed simp_all

lemma py_eq_PyInt_int_val:
  "int_val d = Some n \<Longrightarrow> py_eq (PyInt m) d = (m = n)"
  by (cases d) (auto split: if_splits)

lemma py_eq_items_literal:
  assumes "py_eq_items (map PyInt ms) xs" and "list_all (\<lambda>d. int_val d \<noteq> None) xs"
  shows "map int_val xs = map Some ms"
  using assms
proof (induction ms arbitrary: xs)
  case Nil
  then show ?case by (cases xs) simp_all
next
  case (Cons m ms)
  then obtain y ys where xs: "xs = y # ys" by (cases xs) simp_all
  from Cons.prems xs obtain n where n: "int_val y = Some n" by auto
  from Cons.prems xs have "py_eq (PyInt m) y" by simp
  with n have "m = n" using py_eq_PyInt_int_val [OF n, of m] by blast
  moreover from Cons.prems xs have "map int_val ys = map Some ms"
    by (intro Cons.IH) simp_all
  ultimately show ?case using xs n by simp
qed

lemma valid_of_int_vals:
  assumes "map int_val xs = map Some ms" and "list_all (\<lambda>m. - 1 \<le> m) ms"
  shows "list_all is_valid_dim xs"
  using assms
proof (induction xs arbitrary: ms)
  case Nil
  then show ?case by simp
next
  case (Cons x xs)
  then obtain m ms' where "ms = m # ms'" by (cases ms) auto
  with Cons show ?case by (auto simp: is_valid_dim_def)
qed

lemma common_shapes_literals:
  "common_shapes = map (\<lambda>ms. PyTuple (map PyInt ms)) [[- 1], [1], [3], [2], [1, 3], [- 1, 3]]"
  by (simp add: common_shapes_def)

lemma early_return_is_valid:
  assumes "list_ex (\<lambda>literal. py_eq literal shp) common_shapes" and "shape_like shp"
  shows "is_valid_tuple shp \<and> \<not> is_valid_dim shp"
proof -
  from assms(1) obtain lit where lit: "lit \<in> set common_shapes" and lit_eq: "py_eq lit shp"
    unfolding list_ex_iff by blast
  from lit have "lit \<in> (\<lambda>ms. PyTuple (map PyInt ms)) ` set [[- 1], [1], [3], [2], [1, 3], [- 1, 3]]"
    unfolding common_shapes_literals by (simp only: set_map)
  then obtain ms where ms: "ms \<in> set [[- 1], [1], [3], [2], [1, 3], [- 1, 3 :: int]]"
    and lit_ms: "lit = PyTuple (map PyInt ms)" by blast
  from lit_eq lit_ms have eq: "py_eq (PyTuple (map PyInt ms)) shp" by (simp only:)
  from eq obtain xs where shp: "shp = PyTuple xs" by (cases shp) simp_all
  from ms have ge: "list_all (\<lambda>m. - 1 \<le> m) ms" by auto
  from eq shp have "py_eq_items (map PyInt ms) xs" by simp
  moreover from assms(2) shp have "list_all (\<lambda>d. int_val d \<noteq> None) xs" by simp
  ultimately have "map int_val xs = map Some ms" by (rule py_eq_items_literal)
  then have "list_all is_valid_dim xs" using ge by (rule valid_of_int_vals)
  with shp show ?thesis by (simp add: is_valid_dim_def)
qed

lemma validate_shape_value_agrees:
  assumes "shape_like shp"
  shows "validate_shape_value fmt shp = validate_shape_general fmt shp"
proof -
  from assms have not_none: "shp \<noteq> PyNone" by auto
  show ?thesis
  proof (cases "py_eq shp (PyTuple [])")
    case True
    then have "shp = PyTuple []" by (rule py_eq_empty_tuple)
    then show ?thesis
      by (simp add: validate_shape_value_def validate_shape_general_def is_valid_dim_def)
  next
    case no_empty: False
    show ?thesis
    proof (cases "list_ex (\<lambda>literal. py_eq literal shp) common_shapes")
      case True
      from early_return_is_valid [OF True assms] not_none no_empty True show ?thesis
        by (simp add: validate_shape_value_def validate_shape_general_def)
    next
      case False
      with not_none no_empty show ?thesis
        by (simp add: validate_shape_value_def)
    qed
  qed
qed

text \<open>
  C2. On every shape-like input, and on \<open>None\<close>, \<open>_validate_shape_value\<close> with its early
  returns gives the result of the general validation path: the same tuple, or the same
  error.
\<close>

theorem validate_shape_value_early_return:
  assumes "shp = PyNone \<or> shape_like shp"
  shows "validate_shape_value fmt shp = validate_shape_without_early_return fmt shp"
proof (cases "shp = PyNone")
  case True
  then show ?thesis
    by (simp add: validate_shape_value_def validate_shape_without_early_return_def)
next
  case False
  with assms have "shape_like shp" by simp
  then have "validate_shape_value fmt shp = validate_shape_general fmt shp"
    by (rule validate_shape_value_agrees)
  with False show ?thesis
    by (simp add: validate_shape_without_early_return_def)
qed

theorem validate_shape_value_early_return_witness:
  "(PyTuple [PyInt (- 1), PyInt 3] = PyNone \<or> shape_like (PyTuple [PyInt (- 1), PyInt 3]))
   \<and> validate_shape_value no_text (PyTuple [PyInt (- 1), PyInt 3])
       = Inr (PyTuple [PyInt (- 1), PyInt 3])
   \<and> validate_shape_without_early_return no_text (PyTuple [PyInt (- 1), PyInt 3])
       = Inr (PyTuple [PyInt (- 1), PyInt 3])"
proof -
  have h: "PyTuple [PyInt (- 1), PyInt 3] = PyNone \<or> shape_like (PyTuple [PyInt (- 1), PyInt 3])"
    by simp
  have "validate_shape_value no_text (PyTuple [PyInt (- 1), PyInt 3])
          = Inr (PyTuple [PyInt (- 1), PyInt 3])"
    by (simp add: validate_shape_value_def common_shapes_def)
  with h validate_shape_value_early_return [OF h, of no_text] show ?thesis by simp
qed

subsection \<open>Sorting a 0-dimensional array\<close>

text \<open>
  C10. For an input that is, or is coerced to, a 0-dimensional array, \<open>check_is_sorted\<close>
  returns before it looks at the axis: it passes for every axis, every order and every
  name.
\<close>

theorem check_is_sorted_0d:
  assumes "as_array arr = Inr a" and "ndim a = 0"
  shows "check_is_sorted fmt arr ascending strict axis name = Inr ()"
  using assms by (simp add: check_is_sorted.simps)

text \<open>
  At the axis 5, and at an axis that is no number, a 0-dimensional array passes where a
  one-dimensional array raises.
\<close>

theorem check_is_sorted_0d_witness:
  "as_array (Obj (PyFloat (Fin (5 / 2)))) = Inr \<lparr>dtype = Float64, shape = [], data = [Fin (5 / 2)]\<rparr>
   \<and> ndim \<lparr>dtype = Float64, shape = [], data = [Fin (5 / 2)]\<rparr> = 0
   \<and> check_is_sorted no_text (Obj (PyFloat (Fin (5 / 2)))) True False (PyInt 5) ''Array'' = Inr ()
   \<and> check_is_sorted no_text (Obj (PyFloat (Fin (5 / 2)))) True False (PyStr ''x'') ''Array'' = Inr ()"
proof -
  have h1: "as_array (Obj (PyFloat (Fin (5 / 2))))
              = Inr \<lparr>dtype = Float64, shape = [], data = [Fin (5 / 2)]\<rparr>"
    by (simp add: cast_obj_def leaves_kind_def common_shape_def)
  have h2: "ndim \<lparr>dtype = Float64, shape = [], data = [Fin (5 / 2)]\<rparr> = 0"
    by (simp add: ndim_def)
  show ?thesis
    using h1 h2 check_is_sorted_0d [OF h1 h2, of no_text True False "PyInt 5" "''Array''"]
      check_is_sorted_0d [OF h1 h2, of no_text True False "PyStr ''x''" "''Array''"]
    by simp
qed

lemma check_is_sorted_1d_axis_out_of_bounds:
  "check_is_sorted no_text
     (NdArray \<lparr>dtype = Int64, shape = [3], data = [Fin 1, Fin 2, Fin 3]\<rparr>)
     True False (PyInt 5) ''Array''
   = Inl (ValueError ''Axis 5 is out of bounds for ndim 1.'')"
  by code_simp

lemma check_is_sorted_1d_axis_no_number:
  "is_TypeError (case check_is_sorted no_text
     (NdArray \<lparr>dtype = Int64, shape = [3], data = [Fin 1, Fin 2, Fin 3]\<rparr>)
     True False (PyStr ''x'') ''Array'' of Inl e \<Rightarrow> e | Inr _ \<Rightarrow> NotImplementedError)"
  by code_simp

subsection \<open>Matching against a list of shapes\<close>


lemma valid_spec_shape_like: "valid_shape_spec s \<Longrightarrow> shape_like s"
proof (cases s)
  case (PyTuple xs)
  assume "valid_shape_spec s"
  with PyTuple have "list_all is_valid_dim xs"
    by (simp add: valid_shape_spec_def is_valid_dim_def)
  then have "list_all (\<lambda>d. int_val d \<noteq> None) xs"
    by (induction xs) (auto simp: is_valid_dim_def split: option.splits)
  with PyTuple show ?thesis by simp
qed (auto simp: valid_shape_spec_def is_valid_dim_def)

lemma validate_valid_spec:
  assumes "valid_shape_spec s"
  shows "validate_shape_value fmt s = Inr (normalized s)"
proof -
  from assms have "validate_shape_value fmt s = validate_shape_general fmt s"
    by (intro validate_shape_value_agrees valid_spec_shape_like)
  with assms show ?thesis
    by (auto simp: validate_shape_general_def valid_shape_spec_def normalized_def)
qed

lemma match_any_valid:
  assumes "list_all valid_shape_spec specs"
  shows "match_any_shape fmt s specs
         = Inr (list_ex (\<lambda>spec. shape_is_allowed s (items (normalized spec))) specs)"
  using assms
  by (induction specs) (simp_all add: validate_valid_spec and_then_def)

lemma valid_spec_no_list: "valid_shape_spec s \<Longrightarrow> obj_type s \<noteq> C_list"
  by (cases s) (simp_all add: valid_shape_spec_def is_valid_dim_def)

lemma has_shape_list_passes:
  assumes "list_all valid_shape_spec specs"
  shows "passes (check_has_shape fmt arr (PyList specs) name)
         \<longleftrightarrow> (\<exists>a. as_array arr = Inr a
               \<and> (\<exists>spec \<in> set specs. shape_is_allowed (shape_tuple (shape a)) (items (normalized spec))))"
  by (cases "as_array arr")
    (simp_all add: check_has_shape_def and_then_def match_any_valid [OF assms] passes_def
      Let_def list_ex_iff)

lemma has_shape_single_passes:
  assumes "valid_shape_spec spec"
  shows "passes (check_has_shape fmt arr spec name)
         \<longleftrightarrow> (\<exists>a. as_array arr = Inr a
               \<and> shape_is_allowed (shape_tuple (shape a)) (items (normalized spec)))"
proof -
  have "match_any_shape fmt s [spec] = Inr (shape_is_allowed s (items (normalized spec)))" for s
    using match_any_valid [of "[spec]" fmt s] assms by simp
  then show ?thesis
    using valid_spec_no_list [OF assms]
    by (cases "as_array arr") (simp_all add: check_has_shape_def and_then_def passes_def Let_def)
qed

text \<open>
  C3. For a list of shape specs, \<open>check_has_shape\<close> passes exactly when it passes for one
  of the specs taken alone, and a permutation of the list passes or raises as the list
  does.
\<close>

theorem check_has_shape_any:
  assumes "list_all valid_shape_spec specs"
  shows "(passes (check_has_shape fmt arr (PyList specs) name)
            \<longleftrightarrow> (\<exists>spec \<in> set specs. passes (check_has_shape fmt arr spec name)))
         \<and> (\<forall>specs'. mset specs' = mset specs \<longrightarrow>
               passes (check_has_shape fmt arr (PyList specs') name)
               = passes (check_has_shape fmt arr (PyList specs) name))"
proof (intro conjI allI impI)
  have single: "passes (check_has_shape fmt arr spec name)
         \<longleftrightarrow> (\<exists>a. as_array arr = Inr a
               \<and> shape_is_allowed (shape_tuple (shape a)) (items (normalized spec)))"
    if "spec \<in> set specs" for spec
    using that assms by (intro has_shape_single_passes) (simp add: list_all_iff)
  show "passes (check_has_shape fmt arr (PyList specs) name)
            \<longleftrightarrow> (\<exists>spec \<in> set specs. passes (check_has_shape fmt arr spec name))"
    unfolding has_shape_list_passes [OF assms] using single by blast
next
  fix specs' assume "mset specs' = mset specs"
  then have eq: "set specs' = set specs" by (rule mset_eq_setD)
  with assms have valid': "list_all valid_shape_spec specs'" by (simp add: list_all_iff)
  show "passes (check_has_shape fmt arr (PyList specs') name)
               = passes (check_has_shape fmt arr (PyList specs) name)"
    unfolding has_shape_list_passes [OF assms] has_shape_list_passes [OF valid'] eq ..
qed

theorem check_has_shape_any_witness:
  "list_all valid_shape_spec [PyTuple [PyInt 3, PyInt 3], PyTuple [PyInt 4, PyInt 4]]
   \<and> passes (check_has_shape no_text
         (NdArray \<lparr>dtype = Float64, shape = [3, 3], data = replicate 9 (Fin 0)\<rparr>)
         (PyList [PyTuple [PyInt 3, PyInt 3], PyTuple [PyInt 4, PyInt 4]]) ''Array'')"
proof -
  have valid: "list_all valid_shape_spec [PyTuple [PyInt 3, PyInt 3], PyTuple [PyInt 4, PyInt 4]]"
    by (simp add: valid_shape_spec_def is_valid_dim_def)
  have alone: "passes (check_has_shape no_text
         (NdArray \<lparr>dtype = Float64, shape = [3, 3], data = replicate 9 (Fin 0)\<rparr>)
         (PyTuple [PyInt 3, PyInt 3]) ''Array'')"
    by code_simp
  show ?thesis
    using valid alone
      check_has_shape_any [OF valid, of no_text
        "NdArray \<lparr>dtype = Float64, shape = [3, 3], data = replicate 9 (Fin 0)\<rparr>" "''Array''"]
    by simp
qed

text \<open>
  An entry that is no shape spec raises when the loop reaches it, so that it matters
  whether a matching spec comes before it.
\<close>

lemma check_has_shape_invalid_entry:
  "check_has_shape no_text
     (NdArray \<lparr>dtype = Float64, shape = [3], data = [Fin 0, Fin 0, Fin 0]\<rparr>)
     (PyList [PyTuple [PyInt 3], PyTuple [PyInt (- 2)]]) ''Array'' = Inr ()"
  "check_has_shape no_text
     (NdArray \<lparr>dtype = Float64, shape = [3], data = [Fin 0, Fin 0, Fin 0]\<rparr>)
     (PyList [PyTuple [PyInt (- 2)], PyTuple [PyInt 3]]) ''Array''
   = Inl (ValueError ''Shape values must all be greater than or equal to .'')"
  by code_simp+

subsection \<open>Integer-like values\<close>

lemma array_equal_floor:
  "array_equal xs (map xfloor xs) = list_all (\<lambda>x. xeq x (xfloor x)) xs"
  by (induction xs) (simp_all add: array_equal_def np_all_def)





lemma check_is_integerlike_fraction:
  "check_is_integerlike (NdArray \<lparr>dtype = Float64, shape = [1], data = [Fin (3 / 2)]\<rparr>) False ''Array''
   = Inl (ValueError ''Array must have integer-like values.'')"
  by code_simp

subsection \<open>Ranges\<close>











lemma as_array_idem: "as_array arr = Inr a \<Longrightarrow> as_array (NdArray a) = Inr a"
  by simp



lemma check_is_in_range_scenarios:
  "check_is_in_range no_text
     (Obj (PyList [PyInt 0, PyFloat (Fin (1 / 2)), PyInt 1])) (Obj (PyList [PyInt 0, PyInt 1]))
     False False ''Array'' = Inr ()"
  "check_is_in_range no_text
     (Obj (PyList [PyInt 0, PyFloat (Fin (1 / 2)), PyFloat (Fin (11 / 10))]))
     (Obj (PyList [PyInt 0, PyInt 1])) False False ''Array''
   = Inl (ValueError ''Array values must all be less than or equal to .'')"
  by code_simp+

subsection \<open>Lengths\<close>

lemma xeq_Fin: "xeq x (Fin q) = (x = Fin q)"
  by (cases x) simp_all

lemma integers_are_integer_like:
  assumes "real_valued e" and "\<forall>x \<in> set (data e). \<exists>k. x = Fin (of_int k)"
  shows "check_is_integerlike (NdArray e) False name = Inr ()"
proof -
  have "xeq x (xfloor x)" if "x \<in> set (data e)" for x
    using assms(2) that by auto
  then show ?thesis
    using assms(1)
    by (simp add: check_is_integerlike_def and_then_def np_floor_def array_equal_floor
        list_all_iff)
qed

lemma int_bound_is_valid:
  "validate_optional_bound fmt (Some (PyInt m)) name
   = Inr (Some \<lparr>dtype = Int64, shape = [], data = [Fin (of_int m)]\<rparr>)"
  by (simp add: validate_length_bound_def and_then_def cast_obj_def common_shape_def
      leaves_kind_def check_is_scalar_def ndim_def check_is_real_def)

text \<open>
  C8. For a subject that has a length, \<open>check_has_length\<close> with a collection of integers as
  \<open>exact_length\<close> passes exactly when the length is one of them; with \<open>min_length=m\<close> and
  a length below \<open>m\<close> it raises a value error whose message ends with the actual length.
\<close>

theorem check_has_length_exact_and_min:
  assumes "isinstance arr (ClsTuple [C_Sequence, C_ndarray])" and "py_len arr = Inr n"
  shows "(cast_to_ndarray exact = Inr e \<and> real_valued e
            \<and> (\<forall>x \<in> set (data e). \<exists>k. x = Fin (of_int k)) \<longrightarrow>
            (check_has_length fmt arr (Some exact) None None False False name = Inr ()
               \<longleftrightarrow> Fin (of_nat n) \<in> set (data e)))
         \<and> (int n < m \<longrightarrow>
            check_has_length fmt arr None (Some (PyInt m)) None False False name
            = Inl (ValueError (name @ '' must have a minimum length of ''
                     @ fmt (NdArray \<lparr>dtype = Int64, shape = [], data = [Fin (of_int m)]\<rparr>)
                     @ ''. Got length '' @ str_nat n @ '' instead.'')))"
proof (intro conjI impI)
  have inst: "check_is_instance arr (ClsTuple [C_Sequence, C_ndarray]) True name = Inr ()"
    using assms(1) by (simp add: check_is_instance_subclass del: isinstance.simps)
  {
    assume h: "cast_to_ndarray exact = Inr e \<and> real_valued e
            \<and> (\<forall>x \<in> set (data e). \<exists>k. x = Fin (of_int k))"
    then have il: "check_is_integerlike (NdArray e) False name' = Inr ()" for name'
      by (intro integers_are_integer_like) simp_all
    show "check_has_length fmt arr (Some exact) None None False False name = Inr ()
               \<longleftrightarrow> Fin (of_nat n) \<in> set (data e)"
      using h assms(2)
      by (simp add: check_has_length_def reshape_scalar_def inst il and_then_def list_ex_iff
          xeq_Fin)
  }
  {
    assume "int n < m"
    then have "rat_of_nat n < rat_of_int m"
      by (metis of_int_less_iff of_int_of_nat_eq)
    then show "check_has_length fmt arr None (Some (PyInt m)) None False False name
            = Inl (ValueError (name @ '' must have a minimum length of ''
                     @ fmt (NdArray \<lparr>dtype = Int64, shape = [], data = [Fin (of_int m)]\<rparr>)
                     @ ''. Got length '' @ str_nat n @ '' instead.''))"
      using assms(2)
      by (simp add: check_has_length_def reshape_scalar_def inst int_bound_is_valid and_then_def
          item0_def
          del: validate_optional_bound.simps(2))
  }
qed

theorem check_has_length_exact_and_min_witness:
  "isinstance (Obj (PyList [PyInt 1, PyInt 2, PyInt 3])) (ClsTuple [C_Sequence, C_ndarray])
   \<and> py_len (Obj (PyList [PyInt 1, PyInt 2, PyInt 3])) = Inr 3
   \<and> check_has_length no_text (Obj (PyList [PyInt 1, PyInt 2, PyInt 3]))
        (Some (Obj (PyList [PyInt 2, PyInt 3]))) None None False False ''Array'' = Inr ()
   \<and> check_has_length no_text (Obj (PyList [PyInt 1, PyInt 2]))
        None (Some (PyInt 3)) None False False ''Array''
       = Inl (ValueError ''Array must have a minimum length of . Got length 2 instead.'')"
proof -
  let ?three = "Obj (PyList [PyInt 1, PyInt 2, PyInt 3])"
  let ?two = "Obj (PyList [PyInt 1, PyInt 2])"
  let ?e = "\<lparr>dtype = Int64, shape = [2], data = [Fin 2, Fin 3]\<rparr>"
  have i3: "isinstance ?three (ClsTuple [C_Sequence, C_ndarray])"
    by (simp add: issubclass_def sequence_abcs_def)
  have i2: "isinstance ?two (ClsTuple [C_Sequence, C_ndarray])"
    by (simp add: issubclass_def sequence_abcs_def)
  have l3: "py_len ?three = Inr 3" by simp
  have l2: "py_len ?two = Inr 2" by simp
  have c: "cast_to_ndarray (Obj (PyList [PyInt 2, PyInt 3])) = Inr ?e"
    by (simp add: cast_obj_def common_shape_def leaves_kind_def kind_join_def)
  have r: "real_valued ?e" by (simp add: real_valued_def issubdtype_def np_issubclass_def)
  have ints: "\<forall>x \<in> set (data ?e). \<exists>k. x = Fin (of_int k)"
  proof
    fix x assume "x \<in> set (data ?e)"
    then consider "x = Fin (of_int 2)" | "x = Fin (of_int 3)" by auto
    then show "\<exists>k. x = Fin (of_int k)" by cases blast+
  qed
  have "check_has_length no_text ?three (Some (Obj (PyList [PyInt 2, PyInt 3]))) None None
          False False ''Array'' = Inr ()"
    using check_has_length_exact_and_min [OF i3 l3, where exact = "Obj (PyList [PyInt 2, PyInt 3])"
        and e = ?e and fmt = no_text and name = "''Array''", THEN conjunct1] c r ints
    by simp
  moreover have "check_has_length no_text ?two None (Some (PyInt 3)) None False False ''Array''
       = Inl (ValueError ''Array must have a minimum length of . Got length 2 instead.'')"
    using check_has_length_exact_and_min [OF i2 l2, where m = 3 and fmt = no_text
        and name = "''Array''", THEN conjunct2]
    by (simp add: no_text_def str_nat.simps digit_char_def)
  ultimately show ?thesis using i3 l3 by simp
qed

subsection \<open>Failures of sub-checks\<close>

lemma step_simps [simp]: "step (Inl e) = Inl e" "step (Inr x) = Inr ()"
  by (simp_all add: step_def and_then_def)

lemma hands_on_simps [simp]:
  "hands_on [] whole"
  "hands_on (Inl e # rs) whole = (whole = Inl e)"
  "hands_on (Inr u # rs) whole = hands_on rs whole"
  by (simp_all add: hands_on_def)

lemma hands_on_same: "hands_on [r] r"
  by (cases r) simp_all

lemma hands_on_and_then:
  "hands_on (r # rs) (and_then r f) = (case r of Inl e \<Rightarrow> True | Inr u \<Rightarrow> hands_on rs (f u))"
  by (cases r) (simp_all add: and_then_def)

lemma hands_on_step_and_then:
  "hands_on (step r # rs) (and_then r f) = (case r of Inl e \<Rightarrow> True | Inr x \<Rightarrow> hands_on rs (f x))"
  by (cases r) (simp_all add: and_then_def)

lemma check_is_greater_than_coerced:
  "as_array arr = Inr a \<Longrightarrow>
     check_is_greater_than fmt (NdArray a) v strict name = check_is_greater_than fmt arr v strict name"
  by (simp add: check_is_greater_than_def and_then_def)

lemma check_is_less_than_coerced:
  "as_array arr = Inr a \<Longrightarrow>
     check_is_less_than fmt (NdArray a) v strict name = check_is_less_than fmt arr v strict name"
  by (simp add: check_is_less_than_def and_then_def)

lemma check_each_hands_on:
  "hands_on (map chk xs) (check_each chk xs)"
proof (induction xs)
  case Nil
  show ?case by simp
next
  case (Cons x xs)
  then show ?case by (cases "chk x") (simp_all add: and_then_def)
qed

lemma match_any_shape_append:
  "match_any_shape fmt s pre = Inr False \<Longrightarrow>
     match_any_shape fmt s (pre @ rest) = match_any_shape fmt s rest"
  by (induction pre) (auto simp: and_then_def split: sum.splits if_splits)

text \<open>
  C4 (as the code has it). A failure of the dtype sub-check inside \<open>check_is_numeric\<close> and
  \<open>check_is_real\<close> is replaced by a type error with the message \<open>{name} must be numeric.\<close>
  and \<open>{name} must have real numbers.\<close>; \<open>check_is_sorted\<close> replaces a value error of the
  range check of its axis by \<open>Axis {axis} is out of bounds for ndim {ndim}.\<close>; every other
  call that a check makes to a sub-check or to the coercion hands its failure on as it is:
  the first call that raises gives the check its exception and its message.
\<close>

theorem sub_check_failures:
  "(as_array arr = Inr a \<and> raises (check_is_subdtype (OfArray a) (Base NpNumber) name) \<longrightarrow>
        check_is_numeric arr name = Inl (TypeError (name @ '' must be numeric.'')))
   \<and> (as_array arr = Inr a
          \<and> raises (check_is_subdtype (OfArray a) (BaseTuple [NpFloating, NpInteger]) name) \<longrightarrow>
        check_is_real arr name = Inl (TypeError (name @ '' must have real numbers.'')))
   \<and> (as_array arr = Inr a \<and> ndim a \<noteq> 0 \<and> axis \<noteq> PyNone \<and> \<not> py_eq axis (PyInt (- 1))
          \<and> first_failure [check_is_number fmt (Obj axis) (PyStr ''abstract'') True ''Axis'',
                            check_is_integerlike (Obj axis) False ''Axis''] = Inr ()
          \<and> py_int axis = Inr k
          \<and> check_is_in_range fmt (Obj (PyInt k))
               (Obj (PyList [PyInt (- int (ndim a)), PyInt (int (ndim a) - 1)])) False False ''Axis''
             = Inl (ValueError m) \<longrightarrow>
        check_is_sorted fmt arr ascending strict axis name
        = Inl (ValueError (''Axis '' @ str_int k @ '' is out of bounds for ndim ''
                 @ str_nat (ndim a) @ ''.'')))
   \<and> hands_on [step (as_array arr)] (check_is_numeric arr name)
   \<and> hands_on [step (as_array arr)] (check_is_real arr name)
   \<and> hands_on [step (as_array arr)] (check_is_finite arr name)
   \<and> hands_on [step (as_array arr)] (check_is_integerlike arr strict name)
   \<and> (as_array arr = Inr a \<longrightarrow>
        hands_on [check_is_subdtype (OfArray a) (Base NpInteger) ''Input'']
          (check_is_integerlike arr True name))
   \<and> hands_on [check_is_greater_than fmt arr (Obj (PyInt 0)) False name]
          (check_is_nonnegative fmt arr name)
   \<and> hands_on [step (as_array arr),
                  check_is_number fmt v (PyStr ''abstract'') True ''Object'',
                  check_is_real v ''Array'']
          (check_is_greater_than fmt arr v strict name)
   \<and> hands_on [step (as_array arr),
                  check_is_number fmt v (PyStr ''abstract'') True ''Object'',
                  check_is_real v ''Array'']
          (check_is_less_than fmt arr v strict name)
   \<and> hands_on [step (cast_to_ndarray rng)]
          (check_is_in_range fmt arr rng strict_lower strict_upper name)
   \<and> (cast_to_ndarray rng = Inr r \<longrightarrow>
        hands_on [check_has_shape fmt (NdArray r) (PyInt 2) ''Range'',
                  check_is_sorted fmt (NdArray r) True False (PyInt (- 1)) ''Range'',
                  step (as_array arr),
                  check_is_greater_than fmt arr (item r 0) strict_lower name,
                  check_is_less_than fmt arr (item r 1) strict_upper name]
          (check_is_in_range fmt arr rng strict_lower strict_upper name))
   \<and> hands_on [step (as_array arr)] (check_has_shape fmt arr spec name)
   \<and> (as_array arr = Inr a
          \<and> (if obj_type spec \<noteq> C_list then [spec] else items spec) = before @ s # rest
          \<and> match_any_shape fmt (shape_tuple (shape a)) before = Inr False \<longrightarrow>
        hands_on [step (validate_shape_value fmt s)] (check_has_shape fmt arr spec name))
   \<and> hands_on [check_is_string_in_iterable fmt d definitions ''String'']
          (check_is_number fmt num d must_be_real name)
   \<and> (check_is_string_in_iterable fmt d definitions ''String'' = Inr () \<longrightarrow>
        (\<exists>valid_type. check_is_number fmt num d must_be_real name
                      = check_is_instance num valid_type True name))
   \<and> hands_on [check_is_instance obj (Cls C_str) allow_subclass name]
          (check_is_string obj allow_subclass name)
   \<and> hands_on [check_is_instance obj (Cls C_Sequence) True name] (check_is_sequence obj name)
   \<and> hands_on [check_is_instance obj (Cls C_Iterable) True name] (check_is_iterable obj name)
   \<and> hands_on [check_is_instance obj classinfo False name] (check_is_type obj classinfo name)
   \<and> hands_on [check_is_iterable iterable_obj name, step (py_iter iterable_obj)]
          (check_is_iterable_of_some_type iterable_obj some_type allow_subclass name)
   \<and> (py_iter iterable_obj = Inr elems \<longrightarrow>
        hands_on (check_is_iterable iterable_obj name
                  # map (\<lambda>x. check_is_instance x some_type allow_subclass
                                 (''All items of '' @ name)) elems)
          (check_is_iterable_of_some_type iterable_obj some_type allow_subclass name))
   \<and> hands_on [check_is_iterable_of_some_type iterable_obj (Cls C_str) allow_subclass name]
          (check_is_iterable_of_strings iterable_obj allow_subclass name)
   \<and> hands_on [check_is_string (Obj string_in) True name,
                  check_is_iterable_of_strings (Obj string_iterable) True ''String Iterable'']
          (check_is_string_in_iterable fmt string_in string_iterable name)
   \<and> (\<not> is_valid_dim shp \<and> \<not> is_valid_tuple shp \<longrightarrow>
        hands_on [check_is_instance (Obj shp) (ClsTuple [C_int, C_tuple]) True ''Shape'',
                  if isinstance (Obj shp) (Cls C_int) then Inr ()
                  else check_is_iterable_of_some_type (Obj shp) (Cls C_int) True ''Shape'',
                  check_is_greater_than fmt
                    (Obj (if isinstance (Obj shp) (Cls C_int) then PyTuple [shp] else shp))
                    (Obj (PyInt (- 1))) False ''Shape'']
          (validate_shape_general fmt shp))
   \<and> (shp \<noteq> PyNone \<and> \<not> py_eq shp (PyTuple [])
          \<and> \<not> list_ex (\<lambda>literal. py_eq literal shp) common_shapes \<longrightarrow>
        hands_on [step (validate_shape_general fmt shp)] (validate_shape_value fmt shp))
   \<and> (ndim a = 0 \<longrightarrow>
        hands_on [if must_be_real then check_is_real (NdArray a) name
                  else check_is_numeric (NdArray a) name]
          (check_is_scalar fmt (NdArray a) must_be_real name))
   \<and> (type_of scalar \<noteq> C_ndarray \<longrightarrow>
        hands_on [check_is_number fmt scalar (PyStr ''abstract'') must_be_real ''Object'']
          (check_is_scalar fmt scalar must_be_real name))
   \<and> hands_on [step (cast_to_ndarray (Obj bound))] (validate_length_bound fmt bound label)
   \<and> (cast_to_ndarray (Obj bound) = Inr b \<longrightarrow>
        hands_on [check_is_scalar fmt (NdArray b) True label, check_is_real (NdArray b) label]
          (validate_length_bound fmt bound label))
   \<and> hands_on [check_is_instance (reshape_scalar allow_scalar arr)
                    (ClsTuple [C_Sequence, C_ndarray]) True name,
                  if must_be_1d then
                    check_has_shape fmt (reshape_scalar allow_scalar arr) (PyInt (- 1)) ''Array''
                  else Inr (),
                  step (py_len (reshape_scalar allow_scalar arr))]
          (check_has_length fmt arr exact_length min_length max_length must_be_1d allow_scalar name)
   \<and> (first_failure [check_is_instance (reshape_scalar allow_scalar arr)
                           (ClsTuple [C_Sequence, C_ndarray]) True name,
                         if must_be_1d then
                           check_has_shape fmt (reshape_scalar allow_scalar arr) (PyInt (- 1)) ''Array''
                         else Inr ()] = Inr ()
          \<and> py_len (reshape_scalar allow_scalar arr) = Inr n
          \<and> cast_to_ndarray exact = Inr e \<longrightarrow>
        hands_on [check_is_integerlike (NdArray e) False
                    ([CHR 0x27] @ ''exact_length'' @ [CHR 0x27])]
          (check_has_length fmt arr (Some exact) min_length max_length must_be_1d allow_scalar name))
   \<and> (first_failure [check_is_instance (reshape_scalar allow_scalar arr)
                           (ClsTuple [C_Sequence, C_ndarray]) True name,
                         if must_be_1d then
                           check_has_shape fmt (reshape_scalar allow_scalar arr) (PyInt (- 1)) ''Array''
                         else Inr ()] = Inr ()
          \<and> py_len (reshape_scalar allow_scalar arr) = Inr n \<longrightarrow>
        hands_on [step (validate_optional_bound fmt min_length ''Min length''),
                  step (validate_optional_bound fmt max_length ''Max length''),
                  case (min_length, max_length) of
                    (Some lo, Some hi) \<Rightarrow>
                      check_is_sorted fmt (Obj (PyTuple [lo, hi])) True False (PyInt (- 1)) ''Range''
                  | _ \<Rightarrow> Inr ()]
          (check_has_length fmt arr None min_length max_length must_be_1d allow_scalar name))
   \<and> (first_failure [check_is_instance (reshape_scalar allow_scalar arr)
                           (ClsTuple [C_Sequence, C_ndarray]) True name,
                         if must_be_1d then
                           check_has_shape fmt (reshape_scalar allow_scalar arr) (PyInt (- 1)) ''Array''
                         else Inr ()] = Inr ()
          \<and> py_len (reshape_scalar allow_scalar arr) = Inr n \<longrightarrow>
        hands_on [step (cast_to_ndarray exact)]
          (check_has_length fmt arr (Some exact) min_length max_length must_be_1d allow_scalar name))
   \<and> (first_failure [check_is_instance (reshape_scalar allow_scalar arr)
                           (ClsTuple [C_Sequence, C_ndarray]) True name,
                         if must_be_1d then
                           check_has_shape fmt (reshape_scalar allow_scalar arr) (PyInt (- 1)) ''Array''
                         else Inr ()] = Inr ()
          \<and> py_len (reshape_scalar allow_scalar arr) = Inr n
          \<and> cast_to_ndarray exact = Inr e
          \<and> check_is_integerlike (NdArray e) False ([CHR 0x27] @ ''exact_length'' @ [CHR 0x27])
              = Inr ()
          \<and> list_ex (\<lambda>x. xeq x (Fin (of_nat n))) (data e) \<longrightarrow>
        hands_on [step (validate_optional_bound fmt min_length ''Min length''),
                  step (validate_optional_bound fmt max_length ''Max length''),
                  case (min_length, max_length) of
                    (Some lo, Some hi) \<Rightarrow>
                      check_is_sorted fmt (Obj (PyTuple [lo, hi])) True False (PyInt (- 1)) ''Range''
                  | _ \<Rightarrow> Inr ()]
          (check_has_length fmt arr (Some exact) min_length max_length must_be_1d allow_scalar name))
   \<and> hands_on [step (validate_length_bound fmt bound label)]
          (validate_optional_bound fmt (Some bound) label)
   \<and> hands_on [step (as_array arr)] (check_is_sorted fmt arr ascending strict axis name)
   \<and> (as_array arr = Inr a \<and> ndim a \<noteq> 0 \<and> axis \<noteq> PyNone \<and> \<not> py_eq axis (PyInt (- 1)) \<longrightarrow>
        hands_on [check_is_number fmt (Obj axis) (PyStr ''abstract'') True ''Axis'',
                  check_is_integerlike (Obj axis) False ''Axis'',
                  step (py_int axis)]
          (check_is_sorted fmt arr ascending strict axis name))
   \<and> (as_array arr = Inr a \<and> ndim a \<noteq> 0 \<and> axis \<noteq> PyNone \<and> \<not> py_eq axis (PyInt (- 1))
          \<and> first_failure [check_is_number fmt (Obj axis) (PyStr ''abstract'') True ''Axis'',
                            check_is_integerlike (Obj axis) False ''Axis''] = Inr ()
          \<and> py_int axis = Inr k
          \<and> check_is_in_range fmt (Obj (PyInt k))
               (Obj (PyList [PyInt (- int (ndim a)), PyInt (int (ndim a) - 1)])) False False ''Axis''
             = Inl err
          \<and> \<not> is_ValueError err \<longrightarrow>
        check_is_sorted fmt arr ascending strict axis name = Inl err)"
  apply (intro conjI)
  subgoal
    by (auto simp: check_is_numeric_def and_then_def raises_def check_is_subdtype_def Let_def
          issubdtype_def np_issubclass_def split: sum.splits if_splits)
  subgoal
    by (auto simp: check_is_real_def and_then_def raises_def check_is_subdtype_def Let_def
          issubdtype_def np_issubclass_def split: sum.splits if_splits)
  subgoal
    by (auto simp: check_is_sorted.simps split: sum.splits)
  subgoal
    by (simp add: check_is_numeric_def hands_on_step_and_then split: sum.splits)
  subgoal
    by (simp add: check_is_real_def hands_on_step_and_then split: sum.splits)
  subgoal
    by (simp add: check_is_finite_def hands_on_step_and_then split: sum.splits)
  subgoal
    by (simp add: check_is_integerlike_def hands_on_step_and_then split: sum.splits)
  subgoal
    by (simp add: check_is_integerlike_def and_then_def hands_on_same)
  subgoal
    by (simp add: check_is_nonnegative_def hands_on_same)
  subgoal
    by (simp add: check_is_greater_than_def hands_on_step_and_then hands_on_and_then
          split: sum.splits)
  subgoal
    by (simp add: check_is_less_than_def hands_on_step_and_then hands_on_and_then
          split: sum.splits)
  subgoal
    by (cases "cast_to_ndarray rng") (simp_all add: check_is_in_range.simps)
  subgoal
    by (auto simp: check_is_in_range.simps hands_on_same check_is_greater_than_coerced
          check_is_less_than_coerced split: sum.splits)
  subgoal
    by (simp add: check_has_shape_def hands_on_step_and_then split: sum.splits)
  subgoal
    by (cases "validate_shape_value fmt s")
        (auto simp: check_has_shape_def and_then_def Let_def match_any_shape_append)
  subgoal
    by (simp add: check_is_number_def hands_on_and_then split: sum.splits)
  subgoal
    proof
      assume ok: "check_is_string_in_iterable fmt d definitions ''String'' = Inr ()"
      then have "py_contains definitions d"
        by (auto simp: check_is_string_in_iterable_def and_then_def split: sum.splits if_splits)
      then have "py_eq (PyStr ''abstract'') d \<or> py_eq (PyStr ''builtin'') d
                 \<or> py_eq (PyStr ''numpy'') d"
        by (simp add: definitions_def)
      then have "py_eq d (PyStr ''abstract'') \<or> py_eq d (PyStr ''builtin'')
                 \<or> py_eq d (PyStr ''numpy'')"
        by (cases d) auto
      with ok show "\<exists>valid_type. check_is_number fmt num d must_be_real name
                   = check_is_instance num valid_type True name"
        by (auto simp: check_is_number_def and_then_def)
    qed
  subgoal
    by (simp add: check_is_string_def hands_on_same)
  subgoal
    by (simp add: check_is_sequence_def hands_on_same)
  subgoal
    by (simp add: check_is_iterable_def hands_on_same)
  subgoal
    by (simp add: check_is_type_def hands_on_same)
  subgoal
    by (simp add: check_is_iterable_of_some_type_def hands_on_and_then hands_on_step_and_then
          split: sum.splits)
  subgoal
    by (simp add: check_is_iterable_of_some_type_def hands_on_and_then and_then_def
          check_each_hands_on split: sum.splits)
  subgoal
    by (simp add: check_is_iterable_of_strings_def hands_on_same)
  subgoal
    by (simp add: check_is_string_in_iterable_def hands_on_and_then split: sum.splits)
  subgoal
    by (auto simp: validate_shape_general_def and_then_def hands_on_def split: sum.splits
          simp del: isinstance.simps)
  subgoal
    by (cases "validate_shape_general fmt shp") (simp_all add: validate_shape_value_def)
  subgoal
    by (simp add: check_is_scalar_def hands_on_same)
  subgoal
    by (cases scalar) (simp_all add: check_is_scalar_def hands_on_same)
  subgoal
    by (simp add: validate_length_bound_def hands_on_step_and_then split: sum.splits)
  subgoal
    by (auto simp: validate_length_bound_def and_then_def hands_on_def split: sum.splits)
  subgoal
    by (auto simp: check_has_length_def Let_def and_then_def hands_on_def step_def
          split: sum.splits)
  subgoal
    by (auto simp: check_has_length_def Let_def and_then_def hands_on_def
          split: sum.splits if_splits)
  subgoal
    by (auto simp: check_has_length_def Let_def and_then_def hands_on_def step_def
          split: sum.splits if_splits option.splits
          simp del: validate_optional_bound.simps)
  subgoal
    by (auto simp: check_has_length_def Let_def and_then_def hands_on_def step_def
          split: sum.splits if_splits)
  subgoal
    by (auto simp: check_has_length_def Let_def and_then_def hands_on_def step_def
          split: sum.splits if_splits option.splits
          simp del: validate_optional_bound.simps)
  subgoal
    by (cases "validate_length_bound fmt bound label") (simp_all add: and_then_def)
  subgoal
    by (cases "as_array arr") (simp_all add: check_is_sorted.simps)
  subgoal
    by (auto simp: check_is_sorted.simps hands_on_def step_def and_then_def split: sum.splits)
  subgoal
    by (cases err) (auto simp: check_is_sorted.simps split: sum.splits)
  done

text \<open>
  C4 as stated fails for \<open>check_is_sorted\<close>: for a one-dimensional array and the axis 5, the
  range check of the axis raises with its own message, and \<open>check_is_sorted\<close> raises with
  another.
\<close>

theorem sub_check_failures_counterexample:
  "check_is_in_range no_text (Obj (PyInt 5)) (Obj (PyList [PyInt (- 1), PyInt 0])) False False
     ''Axis''
   = Inl (ValueError ''Axis values must all be less than or equal to .'')
   \<and> check_is_sorted no_text
         (NdArray \<lparr>dtype = Int64, shape = [3], data = [Fin 1, Fin 2, Fin 3]\<rparr>)
         True False (PyInt 5) ''data''
       = Inl (ValueError ''Axis 5 is out of bounds for ndim 1.'')"
  by code_simp

theorem sub_check_failures_witness:
  "as_array (NdArray \<lparr>dtype = DBool, shape = [1], data = [Fin 1]\<rparr>)
     = Inr \<lparr>dtype = DBool, shape = [1], data = [Fin 1]\<rparr>
   \<and> raises (check_is_subdtype (OfArray \<lparr>dtype = DBool, shape = [1], data = [Fin 1]\<rparr>)
               (Base NpNumber) ''data'')
   \<and> check_is_numeric (NdArray \<lparr>dtype = DBool, shape = [1], data = [Fin 1]\<rparr>) ''data''
       = Inl (TypeError ''data must be numeric.'')
   \<and> check_is_real (NdArray \<lparr>dtype = Complex64, shape = [1], data = [Fin 1]\<rparr>) ''data''
       = Inl (TypeError ''data must have real numbers.'')
   \<and> check_is_sorted no_text
         (NdArray \<lparr>dtype = Int64, shape = [3], data = [Fin 1, Fin 2, Fin 3]\<rparr>)
         True False (PyInt 5) ''data''
       = Inl (ValueError ''Axis 5 is out of bounds for ndim 1.'')
   \<and> check_is_numeric (Obj PyNone) ''data'' = Inl cannot_cast"
proof -
  let ?b = "\<lparr>dtype = DBool, shape = [1], data = [Fin 1]\<rparr>"
  let ?c = "\<lparr>dtype = Complex64, shape = [1], data = [Fin 1]\<rparr>"
  let ?s = "\<lparr>dtype = Int64, shape = [3], data = [Fin 1, Fin 2, Fin 3]\<rparr>"
  have b1: "as_array (NdArray ?b) = Inr ?b" by simp
  have b2: "raises (check_is_subdtype (OfArray ?b) (Base NpNumber) ''data'')"
    by (simp add: raises_def check_is_subdtype_def issubdtype_def np_issubclass_def)
  have numeric: "check_is_numeric (NdArray ?b) ''data'' = Inl (TypeError ''data must be numeric.'')"
    using sub_check_failures [where arr = "NdArray ?b" and a = ?b and name = "''data''",
        THEN conjunct1] b1 b2
    by simp
  have c1: "as_array (NdArray ?c) = Inr ?c" by simp
  have c2: "raises (check_is_subdtype (OfArray ?c) (BaseTuple [NpFloating, NpInteger]) ''data'')"
    by (simp add: raises_def check_is_subdtype_def issubdtype_def np_issubclass_def)
  have real: "check_is_real (NdArray ?c) ''data''
              = Inl (TypeError ''data must have real numbers.'')"
    using sub_check_failures [where arr = "NdArray ?c" and a = ?c and name = "''data''",
        THEN conjunct2, THEN conjunct1] c1 c2
    by simp
  have s1: "as_array (NdArray ?s) = Inr ?s" by simp
  have s2: "ndim ?s \<noteq> 0" by (simp add: ndim_def)
  have s3: "first_failure [check_is_number no_text (Obj (PyInt 5)) (PyStr ''abstract'') True ''Axis'',
                           check_is_integerlike (Obj (PyInt 5)) False ''Axis''] = Inr ()"
    by code_simp
  have s4: "check_is_in_range no_text (Obj (PyInt 5))
              (Obj (PyList [PyInt (- int (ndim ?s)), PyInt (int (ndim ?s) - 1)])) False False ''Axis''
            = Inl (ValueError ''Axis values must all be less than or equal to .'')"
    by code_simp
  have sorted: "check_is_sorted no_text (NdArray ?s) True False (PyInt 5) ''data''
                = Inl (ValueError ''Axis 5 is out of bounds for ndim 1.'')"
    using sub_check_failures [where arr = "NdArray ?s" and a = ?s and axis = "PyInt 5"
        and fmt = no_text and k = 5 and ascending = True and strict = False
        and name = "''data''" and m = "''Axis values must all be less than or equal to .''",
        THEN conjunct2, THEN conjunct2, THEN conjunct1] s1 s2 s3 s4
    by (simp add: ndim_def str_int_def str_nat.simps digit_char_def)
  have cast: "check_is_numeric (Obj PyNone) ''data'' = Inl cannot_cast"
    using sub_check_failures [where arr = "Obj PyNone" and name = "''data''",
        THEN conjunct2, THEN conjunct2, THEN conjunct2, THEN conjunct1]
    by (simp add: cast_obj_def leaves_kind_def)
  from b1 b2 numeric real sorted cast show ?thesis by simp
qed

subsection \<open>The name in failure messages\<close>

























































text \<open>
  Three calls check the subject itself and do not pass the caller's name on, so that the
  message starts with the default name of the sub-check: the dtype check of
  \<open>check_is_integerlike\<close> with \<open>strict\<close> (\<open>Input\<close>), the number check of
  \<open>check_is_scalar\<close> for an input that is no array (\<open>Object\<close>), and the shape check of
  \<open>check_has_length\<close> with \<open>must_be_1d\<close> (\<open>Array\<close>).
\<close>

lemma sub_checks_without_the_name:
  "starts_with [''Input'']
     (check_is_integerlike (NdArray \<lparr>dtype = Float64, shape = [1], data = [Fin 1]\<rparr>) True ''data'')
   \<and> \<not> starts_with [''data'']
     (check_is_integerlike (NdArray \<lparr>dtype = Float64, shape = [1], data = [Fin 1]\<rparr>) True ''data'')
   \<and> starts_with [''Object''] (check_is_scalar no_text (Obj (PyStr ''a'')) True ''data'')
   \<and> \<not> starts_with [''data''] (check_is_scalar no_text (Obj (PyStr ''a'')) True ''data'')
   \<and> starts_with [''Array'']
     (check_has_length no_text
        (NdArray \<lparr>dtype = Int64, shape = [1, 2], data = [Fin 1, Fin 2]\<rparr>)
        None None None True False ''data'')
   \<and> \<not> starts_with [''data'']
     (check_has_length no_text
        (NdArray \<lparr>dtype = Int64, shape = [1, 2], data = [Fin 1, Fin 2]\<rparr>)
        None None None True False ''data'')"
  by code_simp


end
